theory Spec2Isabelle
  imports Complex_Main
begin

section \<open>Scalars, vectors and matrices\<close>

text \<open>
  The embedding follows \<^verbatim>\<open>src/core/DICe_Triangulation.cpp\<close>. The scalar types of the
  source (\<^verbatim>\<open>scalar_t\<close>, \<^verbatim>\<open>double\<close>) are read as exact real numbers: every statement below
  is about the arithmetic the code writes down, not about its rounding. A
  \<^verbatim>\<open>std::vector<scalar_t>\<close> is a list, a \<^verbatim>\<open>std::vector<std::vector<scalar_t> >\<close> and a
  \<^verbatim>\<open>Teuchos::SerialDenseMatrix\<close> are lists of rows; \<^verbatim>\<open>A(i,j)\<close> and \<^verbatim>\<open>A[i][j]\<close> read
  \<open>A ! i ! j\<close>.
\<close>

type_synonym vec = "real list"
type_synonym mat = "real list list"

definition mat_set :: "nat \<Rightarrow> nat \<Rightarrow> real \<Rightarrow> mat \<Rightarrow> mat" where
  "mat_set i j v A = A[i := (A ! i)[j := v]]"

definition zero_mat :: "nat \<Rightarrow> nat \<Rightarrow> mat" where
  "zero_mat m n = replicate m (replicate n 0)"

definition identity4 :: mat where
  "identity4 = [[1, 0, 0, 0], [0, 1, 0, 0], [0, 0, 1, 0], [0, 0, 0, 1]]"

text \<open>The triple loop \<^verbatim>\<open>C(i,j) += A(i,k)*B(k,j)\<close> over \<open>i, j, k < 4\<close> into zeroed storage.\<close>

definition mat_mul4 :: "mat \<Rightarrow> mat \<Rightarrow> mat" where
  "mat_mul4 A B =
     map (\<lambda>i. map (\<lambda>j. \<Sum>k\<leftarrow>[0..<4]. A ! i ! k * B ! k ! j) [0..<4]) [0..<4]"

section \<open>Failures\<close>

text \<open>
  Every \<^verbatim>\<open>TEUCHOS_TEST_FOR_EXCEPTION\<close> of the file throws \<^verbatim>\<open>std::runtime_error\<close>; the
  constructors below name the throwing site. An \<^verbatim>\<open>assert\<close> is modelled as a failure
  carrying the asserted expression (the behaviour of a build with assertions enabled).
  A read or write through a null \<^verbatim>\<open>Teuchos::RCP\<close> is a failure of its own, and so is an
  exception that leaves a call no handler encloses.
\<close>

datatype error =
    File_Not_Good
  | Unrecognized_Format
  | Wrong_Number_Of_Values nat
  | Invalid_cx nat
  | Invalid_cy nat
  | Could_Not_Invert_Transform
  | Could_Not_Invert_M
  | Could_Not_Open_Projection_Points
  | Bad_Projection_Points_Line nat nat
  | Not_Enough_Coordinates
  | Could_Not_Determine_Projective_Transform
  | Assertion_Failed string
  | Null_Dereference
  | Uncaught_Exception

section \<open>The Triangulation object and the function-local statics\<close>

text \<open>
  The members of \<^verbatim>\<open>Triangulation\<close> used by the file: \<^verbatim>\<open>cal_intrinsics_\<close> (two rows
  \<^verbatim>\<open>cx cy fx fy fs k1 k2 k3\<close>), \<^verbatim>\<open>cal_extrinsics_\<close> (camera 0 to camera 1),
  \<^verbatim>\<open>trans_extrinsics_\<close> (camera 0 to world) and \<^verbatim>\<open>projectives_\<close>, a
  \<^verbatim>\<open>Teuchos::RCP<std::vector<scalar_t> >\<close> that may be null.
\<close>

record triangulation =
  cal_intrinsics :: mat
  cal_extrinsics :: mat
  trans_extrinsics :: mat
  projectives :: "vec option"

text \<open>
  \<^verbatim>\<open>triangulate\<close> and \<^verbatim>\<open>correct_lens_distortion_radial\<close> keep their scratch variables in
  \<^verbatim>\<open>static\<close> locals, which survive from one call to the next. They are state of the
  program, so the model passes them in and returns them.
\<close>

record statics =
  st_xc0 :: real
  st_yc0 :: real
  st_xc1 :: real
  st_yc1 :: real
  st_M :: mat
  st_MTM :: mat
  st_MTMMT :: mat
  st_r :: vec
  st_XYZc0 :: vec
  st_XYZ :: vec
  st_cmx :: real
  st_cmy :: real
  st_IPIV :: "int list"
  st_WORK :: vec
  st_INFO :: int
  st_rho_tilde :: real
  st_r1 :: real
  st_r2 :: real
  st_factor :: real

text \<open>The shapes the members have after a load (2x8, 4x4, 4x4): every read below is in range.\<close>

definition wf_calibration :: "triangulation \<Rightarrow> bool" where
  "wf_calibration tri \<longleftrightarrow>
     map length (cal_intrinsics tri) = [8, 8] \<and>
     map length (cal_extrinsics tri) = [4, 4, 4, 4] \<and>
     map length (trans_extrinsics tri) = [4, 4, 4, 4]"

section \<open>convert_CB_angles_to_T\<close>

text \<open>\<^verbatim>\<open>DICE_PI\<close> is read as \<open>pi\<close>. The matrix is reshaped to 4x4 and zeroed, then 13 entries are set.\<close>

definition convert_CB_angles_to_T ::
  "real \<Rightarrow> real \<Rightarrow> real \<Rightarrow> real \<Rightarrow> real \<Rightarrow> real \<Rightarrow> mat" where
  "convert_CB_angles_to_T alpha beta gamma tx ty tz =
     (let cx = cos (alpha * pi / 180);
          sx = sin (alpha * pi / 180);
          cy = cos (beta * pi / 180);
          sy = sin (beta * pi / 180);
          cz = cos (gamma * pi / 180);
          sz = sin (gamma * pi / 180)
      in [[cy * cz, sx * sy * cz - cx * sz, cx * sy * cz + sx * sz, tx],
          [cy * sz, sx * sy * sz + cx * cz, cx * sy * sz - sx * cz, ty],
          [- sy, sx * cy, cx * cy, tz],
          [0, 0, 0, 1]])"

section \<open>correct_lens_distortion_radial\<close>

text \<open>
  \<^verbatim>\<open>x_s\<close> and \<^verbatim>\<open>y_s\<close> are in-out references: the model returns the corrected pair. The
  four statics are assigned in the order of the source.
\<close>

definition correct_lens_distortion_radial ::
  "triangulation \<Rightarrow> statics \<Rightarrow> real \<Rightarrow> real \<Rightarrow> nat \<Rightarrow> error + (real \<times> real \<times> statics)" where
  "correct_lens_distortion_radial tri s x_s y_s camera_id =
     (if \<not> length (cal_intrinsics tri) > 0 then Inl (Assertion_Failed ''cal_intrinsics_.size()>0'')
      else
        let ci = cal_intrinsics tri;
            s = s\<lparr>st_r1 := (x_s - ci ! camera_id ! 0) / ci ! camera_id ! 0\<rparr>;
            s = s\<lparr>st_r2 := (y_s - ci ! camera_id ! 1) / ci ! camera_id ! 1\<rparr>;
            s = s\<lparr>st_rho_tilde := st_r1 s * st_r1 s + st_r2 s * st_r2 s\<rparr>;
            s = s\<lparr>st_factor := ci ! camera_id ! 5 * st_rho_tilde s
                   + ci ! camera_id ! 6 * st_rho_tilde s * st_rho_tilde s
                   + ci ! camera_id ! 7 * st_rho_tilde s * st_rho_tilde s * st_rho_tilde s\<rparr>;
            x_s = x_s - st_factor s * st_r1 s * ci ! camera_id ! 0;
            y_s = y_s - st_factor s * st_r2 s * ci ! camera_id ! 1
        in Inr (x_s, y_s, s))"

section \<open>project_camera_0_to_sensor_1\<close>

definition F2 :: "triangulation \<Rightarrow> mat" where
  "F2 tri =
     (let ci = cal_intrinsics tri
      in [[ci ! 1 ! 2, ci ! 1 ! 4, ci ! 1 ! 0, 0],
          [0, ci ! 1 ! 3, ci ! 1 ! 1, 0],
          [0, 0, 1, 0]])"

definition F2_T :: "triangulation \<Rightarrow> mat" where
  "F2_T tri =
     map (\<lambda>j. map (\<lambda>k. \<Sum>i\<leftarrow>[0..<4]. F2 tri ! j ! i * cal_extrinsics tri ! i ! k) [0..<4]) [0..<3]"

definition psi2 :: "triangulation \<Rightarrow> real \<Rightarrow> real \<Rightarrow> real \<Rightarrow> real" where
  "psi2 tri xc yc zc =
     cal_extrinsics tri ! 2 ! 0 * xc + cal_extrinsics tri ! 2 ! 1 * yc
       + cal_extrinsics tri ! 2 ! 2 * zc + cal_extrinsics tri ! 2 ! 3"

definition z2 :: "triangulation \<Rightarrow> real \<Rightarrow> real \<Rightarrow> real \<Rightarrow> real" where
  "z2 tri xc yc zc =
     1 / psi2 tri xc yc zc *
       (F2_T tri ! 2 ! 0 * xc + F2_T tri ! 2 ! 1 * yc + F2_T tri ! 2 ! 2 * zc + F2_T tri ! 2 ! 3)"

definition project_camera_0_to_sensor_1 ::
  "triangulation \<Rightarrow> real \<Rightarrow> real \<Rightarrow> real \<Rightarrow> error + (real \<times> real)" where
  "project_camera_0_to_sensor_1 tri xc yc zc =
     (if \<not> psi2 tri xc yc zc \<noteq> 0 then Inl (Assertion_Failed ''psi2!=0.0'')
      else
        let xs2_out = 1 / psi2 tri xc yc zc *
              (F2_T tri ! 0 ! 0 * xc + F2_T tri ! 0 ! 1 * yc + F2_T tri ! 0 ! 2 * zc + F2_T tri ! 0 ! 3);
            ys2_out = 1 / psi2 tri xc yc zc *
              (F2_T tri ! 1 ! 0 * xc + F2_T tri ! 1 ! 1 * yc + F2_T tri ! 1 ! 2 * zc + F2_T tri ! 1 ! 3)
        in if \<not> \<bar>z2 tri xc yc zc - 1\<bar> < 0.1 then Inl (Assertion_Failed ''std::abs(z2-1.0) < 0.1'')
           else Inr (xs2_out, ys2_out))"

section \<open>LAPACK: GETRF followed by GETRI\<close>

text \<open>
  \<^verbatim>\<open>Teuchos::LAPACK::GETRF\<close> and \<^verbatim>\<open>GETRI\<close> forward to the Fortran routines. Their
  contract, in exact arithmetic: \<^verbatim>\<open>GETRF\<close> overwrites the matrix with the factors of
  \<open>A = P L U\<close> (row interchanges by partial pivoting, the first row of largest absolute
  value in the column) and sets \<^verbatim>\<open>INFO = i\<close> for the first pivot \<open>U(i,i)\<close> that is exactly
  zero; a zero pivot occurs exactly when the matrix is singular. \<^verbatim>\<open>GETRI\<close> then overwrites
  the factors with the inverse and sets \<^verbatim>\<open>INFO = 0\<close>; when a pivot is zero it sets
  \<^verbatim>\<open>INFO = i\<close> and returns with the factors still in the buffer. Both report through
  \<^verbatim>\<open>INFO\<close> only: neither raises a C++ exception. The workspace \<^verbatim>\<open>WORK\<close> is private to
  \<^verbatim>\<open>GETRI\<close> and is not modelled.
\<close>

definition drop_nth :: "nat \<Rightarrow> 'a list \<Rightarrow> 'a list" where
  "drop_nth i xs = take i xs @ drop (Suc i) xs"

text \<open>The determinant by expansion along the first row, the adjugate and the inverse.\<close>

fun mat_det :: "mat \<Rightarrow> real" where
  "mat_det [] = 1"
| "mat_det (r # rs) =
     (\<Sum>j\<leftarrow>[0..<length r]. (- 1) ^ j * r ! j * mat_det (map (drop_nth j) rs))"

definition mat_minor :: "mat \<Rightarrow> nat \<Rightarrow> nat \<Rightarrow> mat" where
  "mat_minor A i j = map (drop_nth j) (drop_nth i A)"

definition mat_adj :: "mat \<Rightarrow> mat" where
  "mat_adj A =
     map (\<lambda>i. map (\<lambda>j. (- 1) ^ (i + j) * mat_det (mat_minor A j i)) [0..<length A])
       [0..<length A]"

definition mat_inverse :: "mat \<Rightarrow> mat" where
  "mat_inverse A = map (map (\<lambda>x. x / mat_det A)) (mat_adj A)"

text \<open>The factors \<^verbatim>\<open>GETRF\<close> leaves: unit lower triangle below the diagonal, \<open>U\<close> on and above it.\<close>

definition pivot_row :: "mat \<Rightarrow> nat \<Rightarrow> nat \<Rightarrow> nat" where
  "pivot_row A n k =
     fold (\<lambda>i p. if \<bar>A ! i ! k\<bar> > \<bar>A ! p ! k\<bar> then i else p) [Suc k..<n] k"

definition eliminate_row :: "nat \<Rightarrow> nat \<Rightarrow> vec \<Rightarrow> vec \<Rightarrow> vec" where
  "eliminate_row n k pr row =
     (let l = row ! k / pr ! k
      in map (\<lambda>j. if j < k then row ! j else if j = k then l else row ! j - l * pr ! j) [0..<n])"

definition getrf_step :: "nat \<Rightarrow> nat \<Rightarrow> mat \<times> int list \<times> int \<Rightarrow> mat \<times> int list \<times> int" where
  "getrf_step n k = (\<lambda>(A, ipiv, info).
     let p = pivot_row A n k;
         A = A[k := A ! p, p := A ! k];
         ipiv = ipiv[k := int p + 1]
     in if A ! k ! k = 0 then (A, ipiv, if info = 0 then int k + 1 else info)
        else (map (\<lambda>i. if i \<le> k then A ! i else eliminate_row n k (A ! k) (A ! i)) [0..<n],
              ipiv, info))"

definition GETRF :: "nat \<Rightarrow> mat \<Rightarrow> int list \<Rightarrow> mat \<times> int list \<times> int" where
  "GETRF n A ipiv = fold (getrf_step n) [0..<n] (A, ipiv, 0)"

text \<open>
  The two calls in sequence, as every call site has them: the buffer, \<^verbatim>\<open>IPIV\<close> and
  \<^verbatim>\<open>INFO\<close> afterwards.
\<close>

definition GETRF_GETRI_result :: "nat \<Rightarrow> mat \<Rightarrow> int list \<Rightarrow> mat \<times> int list \<times> int" where
  "GETRF_GETRI_result n A ipiv =
     (case GETRF n A ipiv of (LU, ipiv, info) \<Rightarrow>
        if mat_det A = 0 then (LU, ipiv, info) else (mat_inverse A, ipiv, 0))"

datatype std_exception = Std_Exception

text \<open>
  The call sites wrap \<^verbatim>\<open>GETRI\<close> in \<^verbatim>\<open>try ... catch(std::exception &e)\<close>. The result type
  keeps the exceptional outcome, so that each handler has its branch in the model; the
  routine itself always returns.
\<close>

definition GETRF_GETRI ::
  "nat \<Rightarrow> mat \<Rightarrow> int list \<Rightarrow> std_exception + mat \<times> int list \<times> int" where
  "GETRF_GETRI n A ipiv = Inr (GETRF_GETRI_result n A ipiv)"

definition square_mat :: "nat \<Rightarrow> mat \<Rightarrow> bool" where
  "square_mat n A \<longleftrightarrow> map length A = replicate n n"

section \<open>invert_transform\<close>

text \<open>\<^verbatim>\<open>IPIV\<close> is a fresh array of 5 integers; \<^verbatim>\<open>INFO\<close> is not inspected.\<close>

definition invert_transform :: "mat \<Rightarrow> error + mat" where
  "invert_transform T_out =
     (case GETRF_GETRI 4 T_out (replicate 5 0) of
        Inl exn \<Rightarrow> Inl Could_Not_Invert_Transform
      | Inr (A, ipiv, info) \<Rightarrow> Inr A)"

section \<open>triangulate\<close>

text \<open>
  The shapes the static buffers are constructed with (\<^verbatim>\<open>M(4,3)\<close>, \<^verbatim>\<open>MTM(3,3)\<close>,
  \<^verbatim>\<open>MTMMT(3,4)\<close>, \<^verbatim>\<open>r(4)\<close>, \<^verbatim>\<open>XYZc0(4)\<close>, \<^verbatim>\<open>XYZ(4)\<close>, \<^verbatim>\<open>IPIV(4)\<close>, \<^verbatim>\<open>WORK(LWORK)\<close>).
  Their contents are arbitrary: whatever the previous call left.
\<close>

definition wf_statics :: "statics \<Rightarrow> bool" where
  "wf_statics s \<longleftrightarrow>
     map length (st_M s) = [3, 3, 3, 3] \<and>
     map length (st_MTM s) = [3, 3, 3] \<and>
     map length (st_MTMMT s) = [4, 4, 4] \<and>
     length (st_r s) = 4 \<and> length (st_XYZc0 s) = 4 \<and> length (st_XYZ s) = 4 \<and>
     length (st_IPIV s) = 4 \<and> length (st_WORK s) = 9"

text \<open>\<^verbatim>\<open>static int LWORK = 9\<close> is never assigned again.\<close>

definition LWORK :: nat where
  "LWORK = 9"

text \<open>Lines 335-351, "clear the storage".\<close>

definition clear_storage :: "statics \<Rightarrow> statics" where
  "clear_storage s =
     (let s = fold (\<lambda>i s.
                let s = fold (\<lambda>j s. s\<lparr>st_M := mat_set j i 0 (st_M s),
                                        st_MTMMT := mat_set i j 0 (st_MTMMT s)\<rparr>) [0..<4] s
                in fold (\<lambda>j s. s\<lparr>st_MTM := mat_set j i 0 (st_MTM s)\<rparr>) [0..<3] s) [0..<3] s;
          s = fold (\<lambda>i s. s\<lparr>st_XYZc0 := (st_XYZc0 s)[i := 0],
                              st_XYZ := (st_XYZ s)[i := 0],
                              st_IPIV := (st_IPIV s)[i := 0],
                              st_r := (st_r s)[i := 0]\<rparr>) [0..<4] s
      in fold (\<lambda>i s. s\<lparr>st_WORK := (st_WORK s)[i := 0]\<rparr>) [0..<LWORK] s)"

text \<open>Lines 353-376, "calculate the M matrix" and the right-hand side.\<close>

definition calculate_M :: "triangulation \<Rightarrow> statics \<Rightarrow> statics" where
  "calculate_M tri s =
     (let ci = cal_intrinsics tri;
          ce = cal_extrinsics tri;
          s = s\<lparr>st_M := mat_set 0 0 (ci ! 0 ! 2) (st_M s)\<rparr>;
          s = s\<lparr>st_M := mat_set 0 1 (ci ! 0 ! 4) (st_M s)\<rparr>;
          s = s\<lparr>st_M := mat_set 0 2 (ci ! 0 ! 0 - st_xc0 s) (st_M s)\<rparr>;
          s = s\<lparr>st_M := mat_set 1 1 (ci ! 0 ! 3) (st_M s)\<rparr>;
          s = s\<lparr>st_M := mat_set 1 2 (ci ! 0 ! 1 - st_yc0 s) (st_M s)\<rparr>;
          s = s\<lparr>st_cmx := ci ! 1 ! 0 - st_xc1 s\<rparr>;
          s = s\<lparr>st_cmy := ci ! 1 ! 1 - st_yc1 s\<rparr>;
          s = s\<lparr>st_M := mat_set 2 0
                (st_cmx s * ce ! 2 ! 0 + ci ! 1 ! 2 * ce ! 0 ! 0 + ci ! 1 ! 4 * ce ! 1 ! 0) (st_M s)\<rparr>;
          s = s\<lparr>st_M := mat_set 2 1
                (st_cmx s * ce ! 2 ! 1 + ci ! 1 ! 2 * ce ! 0 ! 1 + ci ! 1 ! 4 * ce ! 1 ! 1) (st_M s)\<rparr>;
          s = s\<lparr>st_M := mat_set 2 2
                (st_cmx s * ce ! 2 ! 2 + ci ! 1 ! 2 * ce ! 0 ! 2 + ci ! 1 ! 4 * ce ! 1 ! 2) (st_M s)\<rparr>;
          s = s\<lparr>st_M := mat_set 3 0 (st_cmy s * ce ! 2 ! 0 + ci ! 1 ! 3 * ce ! 1 ! 0) (st_M s)\<rparr>;
          s = s\<lparr>st_M := mat_set 3 1 (st_cmy s * ce ! 2 ! 1 + ci ! 1 ! 3 * ce ! 1 ! 1) (st_M s)\<rparr>;
          s = s\<lparr>st_M := mat_set 3 2 (st_cmy s * ce ! 2 ! 2 + ci ! 1 ! 3 * ce ! 1 ! 2) (st_M s)\<rparr>;
          s = s\<lparr>st_r := (st_r s)[2 := - ci ! 1 ! 2 * ce ! 0 ! 3 - ci ! 1 ! 4 * ce ! 1 ! 3
                                      - st_cmx s * ce ! 2 ! 3]\<rparr>
      in s\<lparr>st_r := (st_r s)[3 := - ci ! 1 ! 3 * ce ! 1 ! 3 - st_cmy s * ce ! 2 ! 3]\<rparr>)"

text \<open>Lines 386-393, 406-413, 415-421 and 427-432: the accumulation loops.\<close>

definition compute_MTM :: "statics \<Rightarrow> statics" where
  "compute_MTM s =
     fold (\<lambda>i. fold (\<lambda>j. fold (\<lambda>k s.
        s\<lparr>st_MTM := mat_set i j (st_MTM s ! i ! j + st_M s ! k ! i * st_M s ! k ! j) (st_MTM s)\<rparr>)
        [0..<4]) [0..<3]) [0..<3] s"

definition compute_MTMMT :: "statics \<Rightarrow> statics" where
  "compute_MTMMT s =
     fold (\<lambda>i. fold (\<lambda>j. fold (\<lambda>k s.
        s\<lparr>st_MTMMT := mat_set i j (st_MTMMT s ! i ! j + st_MTM s ! i ! k * st_M s ! j ! k)
              (st_MTMMT s)\<rparr>)
        [0..<3]) [0..<4]) [0..<3] s"

definition compute_XYZc0 :: "statics \<Rightarrow> statics" where
  "compute_XYZc0 s =
     (let s = fold (\<lambda>i. fold (\<lambda>j s.
                s\<lparr>st_XYZc0 := (st_XYZc0 s)[i := st_XYZc0 s ! i + st_MTMMT s ! i ! j * st_r s ! j]\<rparr>)
                [0..<4]) [0..<3] s
      in s\<lparr>st_XYZc0 := (st_XYZc0 s)[3 := 1]\<rparr>)"

definition compute_XYZ :: "triangulation \<Rightarrow> statics \<Rightarrow> statics" where
  "compute_XYZ tri s =
     fold (\<lambda>i. fold (\<lambda>j s.
       s\<lparr>st_XYZ := (st_XYZ s)[i := st_XYZ s ! i + trans_extrinsics tri ! i ! j * st_XYZc0 s ! j]\<rparr>)
       [0..<4]) [0..<4] s"

type_synonym point3 = "real \<times> real \<times> real"

text \<open>
  From "clear the storage" to the end of the function. The outputs are the two points;
  the object and the statics are returned with them.
\<close>

definition triangulate_solve ::
  "triangulation \<Rightarrow> statics \<Rightarrow> error + (point3 \<times> point3 \<times> triangulation \<times> statics)" where
  "triangulate_solve tri s =
     (let s = clear_storage s;
          s = calculate_M tri s;
          s = compute_MTM s
      in (case GETRF_GETRI 3 (st_MTM s) (st_IPIV s) of
            Inl exn \<Rightarrow> Inl Could_Not_Invert_M
          | Inr (A, ipiv, info) \<Rightarrow>
              (let s = s\<lparr>st_MTM := A, st_IPIV := ipiv, st_INFO := info\<rparr>;
                  s = compute_MTMMT s;
                  s = compute_XYZc0 s;
                  xc_out = st_XYZc0 s ! 0;
                  yc_out = st_XYZc0 s ! 1;
                  zc_out = st_XYZc0 s ! 2;
                  s = compute_XYZ tri s;
                  xw_out = st_XYZ s ! 0;
                  yw_out = st_XYZ s ! 1;
                  zw_out = st_XYZ s ! 2
              in Inr ((xc_out, yc_out, zc_out), (xw_out, yw_out, zw_out), tri, s))))"

definition triangulate ::
  "triangulation \<Rightarrow> statics \<Rightarrow> real \<Rightarrow> real \<Rightarrow> real \<Rightarrow> real \<Rightarrow> bool \<Rightarrow>
     error + (point3 \<times> point3 \<times> triangulation \<times> statics)" where
  "triangulate tri s x0 y0 x1 y1 correct_lens_distortion =
     (let s = s\<lparr>st_xc0 := x0\<rparr>;
          s = s\<lparr>st_yc0 := y0\<rparr>;
          s = s\<lparr>st_xc1 := x1\<rparr>;
          s = s\<lparr>st_yc1 := y1\<rparr>
      in if correct_lens_distortion
         then (case correct_lens_distortion_radial tri s (st_xc0 s) (st_yc0 s) 0 of
                 Inl e \<Rightarrow> Inl e
               | Inr (x, y, s) \<Rightarrow>
                   (let s = s\<lparr>st_xc0 := x, st_yc0 := y\<rparr>
                    in (case correct_lens_distortion_radial tri s (st_xc1 s) (st_yc1 s) 1 of
                          Inl e \<Rightarrow> Inl e
                        | Inr (x, y, s) \<Rightarrow> triangulate_solve tri (s\<lparr>st_xc1 := x, st_yc1 := y\<rparr>))))
         else triangulate_solve tri s)"

section \<open>The least-squares system in closed form\<close>

text \<open>
  The design matrix \<open>M\<close>, the right-hand side \<open>r\<close>, the normal matrix \<open>M\<^sup>T M\<close>, the
  product \<open>B M\<^sup>T\<close> and a matrix-vector product, as values: what the buffers of
  \<^verbatim>\<open>triangulate\<close> hold after each loop.
\<close>

definition design_matrix :: "triangulation \<Rightarrow> real \<Rightarrow> real \<Rightarrow> real \<Rightarrow> real \<Rightarrow> mat" where
  "design_matrix tri xc0 yc0 xc1 yc1 =
     (let ci = cal_intrinsics tri;
          ce = cal_extrinsics tri;
          cmx = ci ! 1 ! 0 - xc1;
          cmy = ci ! 1 ! 1 - yc1
      in [[ci ! 0 ! 2, ci ! 0 ! 4, ci ! 0 ! 0 - xc0],
          [0, ci ! 0 ! 3, ci ! 0 ! 1 - yc0],
          [cmx * ce ! 2 ! 0 + ci ! 1 ! 2 * ce ! 0 ! 0 + ci ! 1 ! 4 * ce ! 1 ! 0,
           cmx * ce ! 2 ! 1 + ci ! 1 ! 2 * ce ! 0 ! 1 + ci ! 1 ! 4 * ce ! 1 ! 1,
           cmx * ce ! 2 ! 2 + ci ! 1 ! 2 * ce ! 0 ! 2 + ci ! 1 ! 4 * ce ! 1 ! 2],
          [cmy * ce ! 2 ! 0 + ci ! 1 ! 3 * ce ! 1 ! 0,
           cmy * ce ! 2 ! 1 + ci ! 1 ! 3 * ce ! 1 ! 1,
           cmy * ce ! 2 ! 2 + ci ! 1 ! 3 * ce ! 1 ! 2]])"

definition design_rhs :: "triangulation \<Rightarrow> real \<Rightarrow> real \<Rightarrow> vec" where
  "design_rhs tri xc1 yc1 =
     (let ci = cal_intrinsics tri;
          ce = cal_extrinsics tri;
          cmx = ci ! 1 ! 0 - xc1;
          cmy = ci ! 1 ! 1 - yc1
      in [0, 0,
          - ci ! 1 ! 2 * ce ! 0 ! 3 - ci ! 1 ! 4 * ce ! 1 ! 3 - cmx * ce ! 2 ! 3,
          - ci ! 1 ! 3 * ce ! 1 ! 3 - cmy * ce ! 2 ! 3])"

definition normal_matrix :: "mat \<Rightarrow> mat" where
  "normal_matrix M = map (\<lambda>i. map (\<lambda>j. \<Sum>k\<leftarrow>[0..<4]. M ! k ! i * M ! k ! j) [0..<3]) [0..<3]"

definition pseudo_inverse :: "mat \<Rightarrow> mat \<Rightarrow> mat" where
  "pseudo_inverse B M = map (\<lambda>i. map (\<lambda>j. \<Sum>k\<leftarrow>[0..<3]. B ! i ! k * M ! j ! k) [0..<4]) [0..<3]"

definition mat_vec :: "nat \<Rightarrow> nat \<Rightarrow> mat \<Rightarrow> vec \<Rightarrow> vec" where
  "mat_vec m n A x = map (\<lambda>i. \<Sum>j\<leftarrow>[0..<n]. A ! i ! j * x ! j) [0..<m]"

definition mat_mul3 :: "mat \<Rightarrow> mat \<Rightarrow> mat" where
  "mat_mul3 A B =
     map (\<lambda>i. map (\<lambda>j. \<Sum>k\<leftarrow>[0..<3]. A ! i ! k * B ! k ! j) [0..<3]) [0..<3]"

definition identity3 :: mat where
  "identity3 = [[1, 0, 0], [0, 1, 0], [0, 0, 1]]"

definition camera_0_vec :: "triangulation \<Rightarrow> real \<Rightarrow> real \<Rightarrow> real \<Rightarrow> real \<Rightarrow> vec" where
  "camera_0_vec tri xc0 yc0 xc1 yc1 =
     (let M = design_matrix tri xc0 yc0 xc1 yc1;
          B = fst (GETRF_GETRI_result 3 (normal_matrix M) (replicate 4 0))
      in mat_vec 3 4 (pseudo_inverse B M) (design_rhs tri xc1 yc1))"

definition world_vec :: "triangulation \<Rightarrow> vec \<Rightarrow> vec" where
  "world_vec tri p = mat_vec 4 4 (trans_extrinsics tri) (p @ [1])"

definition point_of :: "vec \<Rightarrow> point3" where
  "point_of v = (v ! 0, v ! 1, v ! 2)"

text \<open>The pair of sensor coordinates the solve starts from, and the two output points.\<close>

definition radial_corrected :: "triangulation \<Rightarrow> real \<Rightarrow> real \<Rightarrow> nat \<Rightarrow> real \<times> real" where
  "radial_corrected tri x_s y_s camera_id =
     (let ci = cal_intrinsics tri;
          r1 = (x_s - ci ! camera_id ! 0) / ci ! camera_id ! 0;
          r2 = (y_s - ci ! camera_id ! 1) / ci ! camera_id ! 1;
          rho_tilde = r1 * r1 + r2 * r2;
          factor = ci ! camera_id ! 5 * rho_tilde + ci ! camera_id ! 6 * rho_tilde * rho_tilde
                   + ci ! camera_id ! 7 * rho_tilde * rho_tilde * rho_tilde
      in (x_s - factor * r1 * ci ! camera_id ! 0, y_s - factor * r2 * ci ! camera_id ! 1))"

definition triangulated_camera_0 ::
  "triangulation \<Rightarrow> real \<Rightarrow> real \<Rightarrow> real \<Rightarrow> real \<Rightarrow> bool \<Rightarrow> vec" where
  "triangulated_camera_0 tri x0 y0 x1 y1 correct_lens_distortion =
     (if correct_lens_distortion
      then camera_0_vec tri (fst (radial_corrected tri x0 y0 0)) (snd (radial_corrected tri x0 y0 0))
             (fst (radial_corrected tri x1 y1 1)) (snd (radial_corrected tri x1 y1 1))
      else camera_0_vec tri x0 y0 x1 y1)"

section \<open>project_left_to_right_sensor_coords\<close>

definition project_left_to_right_sensor_coords ::
  "triangulation \<Rightarrow> real \<Rightarrow> real \<Rightarrow> error + (real \<times> real)" where
  "project_left_to_right_sensor_coords tri xl yl =
     (case projectives tri of
        None \<Rightarrow> Inl (Assertion_Failed ''projectives_!=Teuchos::null'')
      | Some p \<Rightarrow>
          if \<not> length p = 8 then Inl (Assertion_Failed ''projectives_->size()==8'')
          else Inr ((p ! 0 * xl + p ! 1 * yl + p ! 2) / (p ! 6 * xl + p ! 7 * yl + 1),
                    (p ! 3 * xl + p ! 4 * yl + p ! 5) / (p ! 6 * xl + p ! 7 * yl + 1)))"

section \<open>The projection onto sensor 0\<close>

text \<open>
  Modelled from the spec: the source projects onto sensor 1 only. The round-trip law of
  the specification also projects the point onto sensor 0, by "the analogous pinhole
  projection for camera 0": the camera model of \<^verbatim>\<open>project_camera_0_to_sensor_1\<close> with the
  intrinsics of camera 0 and the identity in place of the extrinsics, so that the depth
  term is \<open>zc\<close> itself.
\<close>

definition project_camera_0_to_sensor_0 ::
  "triangulation \<Rightarrow> real \<Rightarrow> real \<Rightarrow> real \<Rightarrow> error + (real \<times> real)" where
  "project_camera_0_to_sensor_0 tri xc yc zc =
     (if \<not> zc \<noteq> 0 then Inl (Assertion_Failed ''psi1!=0.0'')
      else
        let ci = cal_intrinsics tri
        in Inr (1 / zc * (ci ! 0 ! 2 * xc + ci ! 0 ! 4 * yc + ci ! 0 ! 0 * zc),
                1 / zc * (ci ! 0 ! 3 * yc + ci ! 0 ! 1 * zc)))"

section \<open>load_calibration_parameters\<close>

text \<open>
  The file is what the reader sees of it: \<open>None\<close> when the stream is not good after
  opening, otherwise the token arrays that the successive calls of \<^verbatim>\<open>tokenize_line\<close>
  return until end of file. \<^verbatim>\<open>tokenize_line\<close> (DICe_Parser) and \<^verbatim>\<open>strtod\<close> are not part of
  the file; \<^verbatim>\<open>strtod\<close> is a parameter of the model, and gives a real number for every token.
  The function is a \<^verbatim>\<open>void\<close> member that overwrites the members in place: a failure carries
  the object as the throw leaves it.
\<close>

type_synonym tokens = "string list"
type_synonym data_file = "tokens list option"

text \<open>\<^verbatim>\<open>name.find(pat) != std::string::npos\<close>: the pattern occurs somewhere in the name.\<close>

fun contains :: "string \<Rightarrow> string \<Rightarrow> bool" where
  "contains pat [] = (pat = [])"
| "contains pat (c # cs) = (take (length pat) (c # cs) = pat \<or> contains pat cs)"

text \<open>
  \<^verbatim>\<open>for(i=lo;i<=hi;++i) row[coeff_index++] = strtod(tokens[i].c_str(),NULL)\<close>, with
  \<^verbatim>\<open>coeff_index\<close> starting at 0.
\<close>

definition read_coeffs :: "(string \<Rightarrow> real) \<Rightarrow> tokens \<Rightarrow> nat \<Rightarrow> nat \<Rightarrow> vec \<Rightarrow> vec" where
  "read_coeffs strtod tokens lo hi row =
     fst (fold (\<lambda>i (row, coeff_index). (row[coeff_index := strtod (tokens ! i)], Suc coeff_index))
            [lo..<Suc hi] (row, 0))"

text \<open>\<^verbatim>\<open>dst[i][j] = src(i,j)\<close> for \<open>i, j < 4\<close>.\<close>

definition copy4 :: "mat \<Rightarrow> mat" where
  "copy4 src = map (\<lambda>i. map (\<lambda>j. src ! i ! j) [0..<4]) [0..<4]"

text \<open>\<^verbatim>\<open>C[i][j] += A(i,k)*B(k,j)\<close> for \<open>i, j, k < 4\<close>, on the present contents of \<open>C\<close>.\<close>

definition add_mat_mul4 :: "mat \<Rightarrow> mat \<Rightarrow> mat \<Rightarrow> mat" where
  "add_mat_mul4 C A B =
     map (\<lambda>i. map (\<lambda>j. fold (\<lambda>k c. c + A ! i ! k * B ! k ! j) [0..<4] (C ! i ! j)) [0..<4]) [0..<4]"

text \<open>
  The loop of the xml branch (lines 145-171). The locals are \<^verbatim>\<open>cam_orientation\<close> (2x6),
  \<^verbatim>\<open>vec_of_Ts\<close> (two 4x4 matrices) and \<^verbatim>\<open>camera_index\<close>.
\<close>

fun read_xml_lines ::
  "(string \<Rightarrow> real) \<Rightarrow> tokens list \<Rightarrow> triangulation \<Rightarrow> mat \<Rightarrow> mat list \<Rightarrow> nat \<Rightarrow>
     (error \<times> triangulation) + (triangulation \<times> mat \<times> mat list \<times> nat)" where
  "read_xml_lines strtod [] tri cam_orientation vec_of_Ts camera_index =
     Inr (tri, cam_orientation, vec_of_Ts, camera_index)"
| "read_xml_lines strtod (tokens # rest) tri cam_orientation vec_of_Ts camera_index =
     (if length tokens = 0 then read_xml_lines strtod rest tri cam_orientation vec_of_Ts camera_index
      else if tokens ! 0 \<noteq> ''CAMERA''
      then read_xml_lines strtod rest tri cam_orientation vec_of_Ts camera_index
      else if \<not> camera_index < 2 then Inl (Assertion_Failed ''camera_index<2'', tri)
      else if \<not> length tokens > 17 then Inl (Assertion_Failed ''tokens.size()>17'', tri)
      else
        let tri = tri\<lparr>cal_intrinsics := (cal_intrinsics tri)
                    [camera_index := read_coeffs strtod tokens 2 9 (cal_intrinsics tri ! camera_index)]\<rparr>;
            cam_orientation = cam_orientation
                    [camera_index := read_coeffs strtod tokens 11 16 (cam_orientation ! camera_index)];
            vec_of_Ts = vec_of_Ts
                    [camera_index := convert_CB_angles_to_T
                       (cam_orientation ! camera_index ! 0) (cam_orientation ! camera_index ! 1)
                       (cam_orientation ! camera_index ! 2) (cam_orientation ! camera_index ! 3)
                       (cam_orientation ! camera_index ! 4) (cam_orientation ! camera_index ! 5)]
        in read_xml_lines strtod rest tri cam_orientation vec_of_Ts (Suc camera_index))"

text \<open>
  The loop of the txt branch (lines 213-229). The locals are \<^verbatim>\<open>extrinsics\<close> and
  \<^verbatim>\<open>trans_extrinsics\<close> (6 values each, the second called \<open>trans_values\<close> here) and
  \<^verbatim>\<open>num_values\<close>. A 29th value is written past the end of \<^verbatim>\<open>trans_extrinsics\<close> through the
  unchecked \<^verbatim>\<open>operator[]\<close> (undefined behaviour in C++): the vector keeps its six entries
  here, and the count fails the test that follows the loop.
\<close>

fun read_txt_lines ::
  "(string \<Rightarrow> real) \<Rightarrow> tokens list \<Rightarrow> triangulation \<Rightarrow> vec \<Rightarrow> vec \<Rightarrow> nat \<Rightarrow>
     (error \<times> triangulation) + (triangulation \<times> vec \<times> vec \<times> nat)" where
  "read_txt_lines strtod [] tri extrinsics trans_values num_values =
     Inr (tri, extrinsics, trans_values, num_values)"
| "read_txt_lines strtod (tokens # rest) tri extrinsics trans_values num_values =
     (if length tokens = 0 then read_txt_lines strtod rest tri extrinsics trans_values num_values
      else if tokens ! 0 = ''#'' then read_txt_lines strtod rest tri extrinsics trans_values num_values
      else if length tokens > 1 \<and> \<not> tokens ! 1 = ''#''
      then Inl (Assertion_Failed ''tokens[1]==#'', tri)
      else
        let camera_index = (if num_values \<ge> 8 then 1 else 0)
        in if num_values < 16
           then read_txt_lines strtod rest
                  (tri\<lparr>cal_intrinsics :=
                     mat_set camera_index (num_values - camera_index * 8) (strtod (tokens ! 0))
                       (cal_intrinsics tri)\<rparr>)
                  extrinsics trans_values (Suc num_values)
           else if num_values < 22
           then read_txt_lines strtod rest tri
                  (extrinsics[num_values - 16 := strtod (tokens ! 0)]) trans_values (Suc num_values)
           else read_txt_lines strtod rest tri extrinsics
                  (trans_values[num_values - 22 := strtod (tokens ! 0)]) (Suc num_values))"

text \<open>Lines 109-263: the members are reset, then one of the two branches fills them.\<close>

definition load_calibration_values ::
  "(string \<Rightarrow> real) \<Rightarrow> triangulation \<Rightarrow> string \<Rightarrow> data_file \<Rightarrow>
     (error \<times> triangulation) + triangulation" where
  "load_calibration_values strtod tri param_file_name dataFile =
     (case dataFile of
        None \<Rightarrow> Inl (File_Not_Good, tri)
      | Some lines \<Rightarrow>
          let tri = tri\<lparr>cal_extrinsics := replicate 4 (replicate 4 0)\<rparr>;
              tri = tri\<lparr>trans_extrinsics := map (\<lambda>i. (replicate 4 0)[i := 1]) [0..<4]\<rparr>;
              tri = tri\<lparr>cal_intrinsics := replicate 2 (replicate 8 0)\<rparr>
          in if contains ''xml'' param_file_name
             then (case read_xml_lines strtod lines tri (replicate 2 (replicate 6 0))
                          (replicate 2 (zero_mat 4 4)) 0 of
                     Inl e \<Rightarrow> Inl e
                   | Inr (tri, cam_orientation, vec_of_Ts, camera_index) \<Rightarrow>
                       (case invert_transform (vec_of_Ts ! 0) of
                          Inl e \<Rightarrow> Inl (e, tri)
                        | Inr T0 \<Rightarrow>
                            let vec_of_Ts = vec_of_Ts[0 := T0];
                                tri = tri\<lparr>trans_extrinsics := copy4 (vec_of_Ts ! 0)\<rparr>
                            in Inr (tri\<lparr>cal_extrinsics :=
                                    add_mat_mul4 (cal_extrinsics tri) (vec_of_Ts ! 1) (vec_of_Ts ! 0)\<rparr>)))
             else if contains ''txt'' param_file_name
             then (let tri = tri\<lparr>trans_extrinsics :=
                                fold (\<lambda>i T. mat_set i i 1 T) [0..<4] (trans_extrinsics tri)\<rparr>
                   in (case read_txt_lines strtod lines tri (replicate 6 0) (replicate 6 0) 0 of
                         Inl e \<Rightarrow> Inl e
                       | Inr (tri, extrinsics, trans_values, num_values) \<Rightarrow>
                           if num_values \<noteq> 22 \<and> num_values \<noteq> 28
                           then Inl (Wrong_Number_Of_Values num_values, tri)
                           else
                             let converted_extrinsics = convert_CB_angles_to_T
                                   (extrinsics ! 0) (extrinsics ! 1) (extrinsics ! 2)
                                   (extrinsics ! 3) (extrinsics ! 4) (extrinsics ! 5);
                                 tri = tri\<lparr>cal_extrinsics := copy4 converted_extrinsics\<rparr>
                             in if num_values = 28
                                then (case invert_transform (convert_CB_angles_to_T
                                             (trans_values ! 0) (trans_values ! 1) (trans_values ! 2)
                                             (trans_values ! 3) (trans_values ! 4) (trans_values ! 5)) of
                                        Inl e \<Rightarrow> Inl (e, tri)
                                      | Inr converted_extrinsics \<Rightarrow>
                                          Inr (tri\<lparr>trans_extrinsics := copy4 converted_extrinsics\<rparr>))
                                else Inr tri))
             else Inl (Unrecognized_Format, tri))"

text \<open>
  Lines 264-267: the four tests on the principal points. The members are doubles, and
  \<^verbatim>\<open>x <= 0.0\<close> is a comparison of doubles: true of a number that is not positive and of
  \<open>-\<infinity>\<close>, false of a positive number, of \<open>+\<infinity>\<close> and of a value that is not a number.
\<close>

datatype double = Finite real | PInf | MInf | NaN

fun le_zero :: "double \<Rightarrow> bool" where
  "le_zero (Finite x) = (x \<le> 0)"
| "le_zero PInf = False"
| "le_zero MInf = True"
| "le_zero NaN = False"

fun gt_zero :: "double \<Rightarrow> bool" where
  "gt_zero (Finite x) = (x > 0)"
| "gt_zero PInf = True"
| "gt_zero MInf = False"
| "gt_zero NaN = False"

definition test_principal_points :: "double list list \<Rightarrow> error option" where
  "test_principal_points intrinsics =
     (if le_zero (intrinsics ! 0 ! 0) then Some (Invalid_cx 0)
      else if le_zero (intrinsics ! 0 ! 1) then Some (Invalid_cy 0)
      else if le_zero (intrinsics ! 1 ! 0) then Some (Invalid_cx 1)
      else if le_zero (intrinsics ! 1 ! 1) then Some (Invalid_cy 1)
      else None)"

text \<open>The tests on the table of an object, whose entries are real numbers.\<close>

definition check_intrinsics :: "triangulation \<Rightarrow> (error \<times> triangulation) + triangulation" where
  "check_intrinsics tri =
     (case test_principal_points (map (map Finite) (cal_intrinsics tri)) of
        Some e \<Rightarrow> Inl (e, tri)
      | None \<Rightarrow> Inr tri)"

definition load_calibration_parameters ::
  "(string \<Rightarrow> real) \<Rightarrow> triangulation \<Rightarrow> string \<Rightarrow> data_file \<Rightarrow>
     (error \<times> triangulation) + triangulation" where
  "load_calibration_parameters strtod tri param_file_name dataFile =
     (case load_calibration_values strtod tri param_file_name dataFile of
        Inl e \<Rightarrow> Inl e
      | Inr tri \<Rightarrow> check_intrinsics tri)"

definition invalid_intrinsics :: "error \<Rightarrow> bool" where
  "invalid_intrinsics e \<longleftrightarrow> e \<in> {Invalid_cx 0, Invalid_cy 0, Invalid_cx 1, Invalid_cy 1}"

text \<open>The lines of a file that open a camera record, and the lines that carry a value.\<close>

definition camera_records :: "tokens list \<Rightarrow> tokens list" where
  "camera_records lines = filter (\<lambda>tokens. length tokens \<noteq> 0 \<and> tokens ! 0 = ''CAMERA'') lines"

definition value_lines :: "tokens list \<Rightarrow> tokens list" where
  "value_lines lines = filter (\<lambda>tokens. length tokens \<noteq> 0 \<and> tokens ! 0 \<noteq> ''#'') lines"

definition record_pose :: "(string \<Rightarrow> real) \<Rightarrow> tokens \<Rightarrow> mat" where
  "record_pose strtod tokens =
     convert_CB_angles_to_T (strtod (tokens ! 11)) (strtod (tokens ! 12)) (strtod (tokens ! 13))
       (strtod (tokens ! 14)) (strtod (tokens ! 15)) (strtod (tokens ! 16))"

section \<open>estimate_projective_transform\<close>

text \<open>
  \<open>projDataFile\<close> is \<^verbatim>\<open>projection_points.dat\<close> as the reader sees it. The optimiser
  (\<^verbatim>\<open>DICe::Homography_Simplex\<close>, which also holds the two images) is the parameter
  \<open>simplex\<close>: from the coefficient vector and the step sizes to the status, the vector it
  leaves and the iteration count. \<open>w\<close> and \<open>h\<close> are the dimensions of the left image. The
  report \<^verbatim>\<open>projection_out.dat\<close> and the two image files are written and never read back;
  they are not modelled. \<^verbatim>\<open>projectives_\<close> is updated in place, so a failure carries the
  object as the throw leaves it.
\<close>

text \<open>The first pass over the file (lines 523-531).\<close>

fun count_coords :: "tokens list \<Rightarrow> nat \<Rightarrow> error + nat" where
  "count_coords [] num_coords = Inr num_coords"
| "count_coords (tokens # rest) num_coords =
     (if length tokens = 0 then count_coords rest num_coords
      else if length tokens \<noteq> 4
      then Inl (Bad_Projection_Points_Line (length tokens) (num_coords + 1))
      else count_coords rest (Suc num_coords))"

text \<open>The second pass (lines 541-553): field \<open>k\<close> of every line that has tokens.\<close>

definition read_coords :: "(string \<Rightarrow> real) \<Rightarrow> tokens list \<Rightarrow> nat \<Rightarrow> vec" where
  "read_coords strtod lines k =
     map (\<lambda>tokens. strtod (tokens ! k)) (filter (\<lambda>tokens. length tokens \<noteq> 0) lines)"

definition dlt_K :: "vec \<Rightarrow> vec \<Rightarrow> vec \<Rightarrow> vec \<Rightarrow> nat \<Rightarrow> mat" where
  "dlt_K proj_xl proj_yl proj_xr proj_yr num_coords =
     concat (map (\<lambda>i.
       [[proj_xl ! i, proj_yl ! i, 1, 0, 0, 0,
         - 1 * proj_xl ! i * proj_xr ! i, - 1 * proj_yl ! i * proj_xr ! i],
        [0, 0, 0, proj_xl ! i, proj_yl ! i, 1,
         - 1 * proj_xl ! i * proj_yr ! i, - 1 * proj_yl ! i * proj_yr ! i]]) [0..<num_coords])"

definition dlt_F :: "vec \<Rightarrow> vec \<Rightarrow> nat \<Rightarrow> vec" where
  "dlt_F proj_xr proj_yr num_coords =
     concat (map (\<lambda>i. [proj_xr ! i, proj_yr ! i]) [0..<num_coords])"

definition deltas :: vec where
  "deltas = [0.001, 0.001, 1, 0.001, 0.001, 1, 0.0001, 0.0001]"

text \<open>
  The pixels of the diagnostic image, in the order of the loops
  \<^verbatim>\<open>for(j=0.05*h;j<0.95*h;++j) for(i=0.05*w;i<0.95*w;++i)\<close>, and the first assertion of
  \<^verbatim>\<open>project_left_to_right_sensor_coords\<close> that fails on them.
\<close>

definition projected_pixels :: "nat \<Rightarrow> nat \<Rightarrow> (nat \<times> nat) list" where
  "projected_pixels w h =
     concat (map (\<lambda>j. map (\<lambda>i. (i, j))
                        (filter (\<lambda>i. real i < 0.95 * real w) [nat \<lfloor>0.05 * real w\<rfloor>..<w]))
               (filter (\<lambda>j. real j < 0.95 * real h) [nat \<lfloor>0.05 * real h\<rfloor>..<h]))"

fun project_pixels :: "triangulation \<Rightarrow> (nat \<times> nat) list \<Rightarrow> error option" where
  "project_pixels tri [] = None"
| "project_pixels tri ((i, j) # rest) =
     (case project_left_to_right_sensor_coords tri (real i) (real j) of
        Inl e \<Rightarrow> Some e
      | Inr xy \<Rightarrow> project_pixels tri rest)"

text \<open>
  \<^verbatim>\<open>IPIV\<close> is a fresh array of \<open>N+1\<close> integers. No handler encloses the two LAPACK calls.
  The coefficient vector is never allocated here. It is zeroed over its own size and then
  written at indices \<open>0..7\<close> through the unchecked \<^verbatim>\<open>operator[]\<close>: an index past the size
  names no entry of the vector (undefined behaviour in C++), and the vector keeps its
  size and entries there.
\<close>

definition estimate_projective_transform ::
  "(string \<Rightarrow> real) \<Rightarrow> (vec \<Rightarrow> vec \<Rightarrow> bool \<times> vec \<times> nat) \<Rightarrow> nat \<Rightarrow> nat \<Rightarrow>
     triangulation \<Rightarrow> data_file \<Rightarrow> bool \<Rightarrow> (error \<times> triangulation) + triangulation" where
  "estimate_projective_transform strtod simplex w h tri projDataFile output_projected_image =
     (case projDataFile of
        None \<Rightarrow> Inl (Could_Not_Open_Projection_Points, tri)
      | Some lines \<Rightarrow>
          (case count_coords lines 0 of
             Inl e \<Rightarrow> Inl (e, tri)
           | Inr num_coords \<Rightarrow>
               if num_coords < 4 then Inl (Not_Enough_Coordinates, tri)
               else
                 let proj_xl = read_coords strtod lines 0;
                     proj_yl = read_coords strtod lines 1;
                     proj_xr = read_coords strtod lines 2;
                     proj_yr = read_coords strtod lines 3;
                     K = dlt_K proj_xl proj_yl proj_xr proj_yr num_coords;
                     F = dlt_F proj_xr proj_yr num_coords;
                     KTK = map (\<lambda>k. map (\<lambda>m. \<Sum>j\<leftarrow>[0..<num_coords * 2]. K ! j ! k * K ! j ! m)
                                       [0..<8]) [0..<8]
                 in (case GETRF_GETRI 8 KTK (replicate 9 0) of
                       Inl exn \<Rightarrow> Inl (Uncaught_Exception, tri)
                     | Inr (KTK, ipiv, info) \<Rightarrow>
                         (let KTu = map (\<lambda>i. \<Sum>j\<leftarrow>[0..<num_coords * 2]. K ! j ! i * F ! j) [0..<8]
                          in (case projectives tri of
                                None \<Rightarrow> Inl (Null_Dereference, tri)
                              | Some p \<Rightarrow>
                                  (let p = fold (\<lambda>i p. p[i := 0]) [0..<length p] p;
                                       p = fold (\<lambda>i. fold (\<lambda>j p.
                                                  p[i := p ! i + KTK ! i ! j * KTu ! j]) [0..<8])
                                                 [0..<8] p
                                   in (case simplex p deltas of
                                         (corr_status, p, num_iterations) \<Rightarrow>
                                           (let tri = tri\<lparr>projectives := Some p\<rparr>
                                            in if \<not> corr_status
                                               then Inl (Could_Not_Determine_Projective_Transform, tri)
                                               else if output_projected_image
                                               then (case project_pixels tri (projected_pixels w h) of
                                                       Some e \<Rightarrow> Inl (e, tri)
                                                     | None \<Rightarrow> Inr tri)
                                               else Inr tri))))))))"

section \<open>Example data\<close>

definition example_triangulation :: triangulation where
  "example_triangulation =
     \<lparr>cal_intrinsics = [[1, 1, 1, 1, 0, 1, 0, 0], [1, 1, 1, 1, 0, 0, 0, 0]],
      cal_extrinsics = [[1, 0, 0, 1], [0, 1, 0, 0], [0, 0, 1, 0], [0, 0, 0, 1]],
      trans_extrinsics = identity4,
      projectives = None\<rparr>"

definition example_statics :: statics where
  "example_statics =
     \<lparr>st_xc0 = 0, st_yc0 = 0, st_xc1 = 0, st_yc1 = 0,
      st_M = zero_mat 4 3, st_MTM = zero_mat 3 3, st_MTMMT = zero_mat 3 4,
      st_r = replicate 4 0, st_XYZc0 = replicate 4 0, st_XYZ = replicate 4 0,
      st_cmx = 0, st_cmy = 0, st_IPIV = replicate 4 0, st_WORK = replicate 9 0, st_INFO = 0,
      st_rho_tilde = 0, st_r1 = 0, st_r2 = 0, st_factor = 0\<rparr>"

text \<open>Statics as an earlier call, or anything else, might have left them.\<close>

definition dirty_statics :: statics where
  "dirty_statics =
     \<lparr>st_xc0 = 7, st_yc0 = 7, st_xc1 = 7, st_yc1 = 7,
      st_M = replicate 4 (replicate 3 7), st_MTM = replicate 3 (replicate 3 7),
      st_MTMMT = replicate 3 (replicate 4 7),
      st_r = replicate 4 7, st_XYZc0 = replicate 4 7, st_XYZ = replicate 4 7,
      st_cmx = 7, st_cmy = 7, st_IPIV = replicate 4 7, st_WORK = replicate 9 7, st_INFO = 7,
      st_rho_tilde = 7, st_r1 = 7, st_r2 = 7, st_factor = 7\<rparr>"

text \<open>
  Two coincident cameras: unit focal lengths, principal points at \<open>(1,1)\<close>, the identity as
  camera 0 to camera 1 transform.
\<close>

definition degenerate_triangulation :: triangulation where
  "degenerate_triangulation =
     \<lparr>cal_intrinsics = [[1, 1, 1, 1, 0, 0, 0, 0], [1, 1, 1, 1, 0, 0, 0, 0]],
      cal_extrinsics = identity4,
      trans_extrinsics = identity4,
      projectives = None\<rparr>"

text \<open>A \<^verbatim>\<open>strtod\<close> for the tokens of the example files, and an object before any load.\<close>

definition example_strtod :: "string \<Rightarrow> real" where
  "example_strtod s = (if s = ''1'' then 1 else if s = ''2'' then 2 else 0)"

definition unloaded_triangulation :: triangulation where
  "unloaded_triangulation =
     \<lparr>cal_intrinsics = [], cal_extrinsics = [], trans_extrinsics = [], projectives = None\<rparr>"

text \<open>Three calibration files, as token arrays: two in the txt format, one in the xml format.\<close>

definition degenerate_txt :: "tokens list" where
  "degenerate_txt =
     [[''#'', ''camera'', ''0''], [''1''], [''1''], [''1''], [''1''], [''0''], [''0''], [''0''], [''0''],
      [''#'', ''camera'', ''1''], [''1''], [''1''], [''1''], [''1''], [''0''], [''0''], [''0''], [''0''],
      [''#'', ''extrinsics''], [''0''], [''0''], [''0''], [''0''], [''0''], [''0''], []]"

definition zero_txt :: "tokens list" where
  "zero_txt = replicate 22 [''0'']"

definition example_xml :: "tokens list" where
  "example_xml =
     [[''?xml'', ''version=1.0?''],
      [''CAMERA'', ''id=0'', ''1'', ''1'', ''1'', ''1'', ''0'', ''1'', ''0'', ''0'',
       ''orientation'', ''0'', ''0'', ''0'', ''1'', ''0'', ''0'', ''/CAMERA''],
      [],
      [''CAMERA'', ''id=1'', ''1'', ''1'', ''1'', ''1'', ''0'', ''0'', ''0'', ''0'',
       ''orientation'', ''0'', ''0'', ''0'', ''2'', ''0'', ''0'', ''/CAMERA'']]"

text \<open>
  Objects whose coefficient vector is allocated: zero-filled, and holding the identity
  homography. A correspondence file with two points and an empty line, and one
  with four points.
\<close>

definition zeroed_triangulation :: triangulation where
  "zeroed_triangulation = unloaded_triangulation\<lparr>projectives := Some [0, 0, 0, 0, 0, 0, 0, 0]\<rparr>"

definition identity_homography :: triangulation where
  "identity_homography = unloaded_triangulation\<lparr>projectives := Some [1, 0, 0, 0, 1, 0, 0, 0]\<rparr>"

definition two_points :: "tokens list" where
  "two_points = [[''1'', ''1'', ''2'', ''1''], [], [''2'', ''1'', ''1'', ''2'']]"

definition four_points :: "tokens list" where
  "four_points =
     [[''1'', ''1'', ''1'', ''1''], [''2'', ''1'', ''2'', ''1''], [''1'', ''2'', ''1'', ''2''],
      [''2'', ''2'', ''2'', ''2'']]"

text \<open>
  The table of principal points and the other intrinsics as the txt branch leaves it on
  the file of the coincident cameras when the token of the first value is \<^verbatim>\<open>nan\<close>.
\<close>

definition nan_intrinsics :: "double list list" where
  "nan_intrinsics =
     [[NaN, Finite 1, Finite 1, Finite 1, Finite 0, Finite 0, Finite 0, Finite 0],
      [Finite 1, Finite 1, Finite 1, Finite 1, Finite 0, Finite 0, Finite 0, Finite 0]]"

section \<open>Radial lens distortion\<close>

lemma upt_0_2: "[0..<2] = [0, 1]"
  by (simp add: upt_rec)

lemma upt_0_3: "[0..<3] = [0, 1, 2]"
  by (simp add: upt_rec)

lemma upt_0_4: "[0..<4] = [0, 1, 2, 3]"
  by (simp add: upt_rec)

lemma F2_T_row2:
  "F2_T tri ! 2 = [cal_extrinsics tri ! 2 ! 0, cal_extrinsics tri ! 2 ! 1,
                   cal_extrinsics tri ! 2 ! 2, cal_extrinsics tri ! 2 ! 3]"
  by (simp add: F2_T_def F2_def Let_def upt_0_3 upt_0_4)

text \<open>
  C5. For a camera with \<open>cx > 0\<close> and \<open>cy > 0\<close>, \<^verbatim>\<open>correct_lens_distortion_radial\<close> returns
  \<open>(x_s - factor*r1*cx, y_s - factor*r2*cy)\<close> with \<open>r1 = (x_s - cx)/cx\<close>,
  \<open>r2 = (y_s - cy)/cy\<close>, \<open>rho = r1^2 + r2^2\<close> and \<open>factor = k1*rho + k2*rho^2 + k3*rho^3\<close>,
  in one pass; with \<open>k1 = k2 = k3 = 0\<close> it returns its input unchanged.
\<close>

theorem correct_lens_distortion_radial_formula:
  fixes x_s y_s cx cy fx fy fs k1 k2 k3 :: real
  assumes "wf_calibration tri" and "camera_id < 2"
    and "cal_intrinsics tri ! camera_id = [cx, cy, fx, fy, fs, k1, k2, k3]"
    and "cx > 0" and "cy > 0"
  shows "let r1 = (x_s - cx) / cx;
             r2 = (y_s - cy) / cy;
             rho = r1\<^sup>2 + r2\<^sup>2;
             factor = k1 * rho + k2 * rho\<^sup>2 + k3 * rho ^ 3
         in (\<exists>s'. correct_lens_distortion_radial tri s x_s y_s camera_id =
                     Inr (x_s - factor * r1 * cx, y_s - factor * r2 * cy, s')) \<and>
            (k1 = 0 \<and> k2 = 0 \<and> k3 = 0 \<longrightarrow>
               (\<exists>s'. correct_lens_distortion_radial tri s x_s y_s camera_id = Inr (x_s, y_s, s')))"
proof -
  define r1 where "r1 = (x_s - cx) / cx"
  define r2 where "r2 = (y_s - cy) / cy"
  define rho where "rho = r1\<^sup>2 + r2\<^sup>2"
  define factor where "factor = k1 * rho + k2 * rho\<^sup>2 + k3 * rho ^ 3"
  have nonempty: "length (cal_intrinsics tri) > 0"
    using assms(1) by (auto simp: wf_calibration_def)
  have eq: "correct_lens_distortion_radial tri s x_s y_s camera_id =
      Inr (x_s - factor * r1 * cx, y_s - factor * r2 * cy,
           s\<lparr>st_r1 := r1, st_r2 := r2, st_rho_tilde := rho, st_factor := factor\<rparr>)"
    using nonempty assms(3)
    by (simp add: correct_lens_distortion_radial_def Let_def r1_def r2_def rho_def factor_def
        power2_eq_square power3_eq_cube mult.assoc)
  have zero: "k1 = 0 \<and> k2 = 0 \<and> k3 = 0 \<longrightarrow> factor = 0"
    by (simp add: factor_def)
  show ?thesis
    unfolding Let_def r1_def [symmetric] r2_def [symmetric] rho_def [symmetric]
      factor_def [symmetric]
    using eq zero by auto
qed

theorem correct_lens_distortion_radial_formula_witness:
  "\<exists>s'. correct_lens_distortion_radial example_triangulation example_statics 3 1 0 =
          Inr (3 - 4 * 2 * 1, 1, s')"
  using correct_lens_distortion_radial_formula [of example_triangulation 0 1 1 1 1 0 1 0 0 3 1
      example_statics]
  by (simp add: example_triangulation_def wf_calibration_def identity4_def Let_def)

text \<open>
  C10. In \<^verbatim>\<open>project_camera_0_to_sensor_1\<close>, whenever \<open>psi2 \<noteq> 0\<close> the recovered
  homogeneous depth \<open>z2\<close> is exactly 1 (the third row of \<open>F2\<close> is \<open>(0,0,1,0)\<close>, so the third
  row of \<open>F2_T\<close> is the third row of the extrinsics), the assertion \<open>|z2 - 1| < 0.1\<close> holds,
  and the call returns sensor coordinates.
\<close>

theorem project_camera_0_to_sensor_1_z2:
  assumes "wf_calibration tri" and "psi2 tri xc yc zc \<noteq> 0"
  shows "z2 tri xc yc zc = 1 \<and> \<bar>z2 tri xc yc zc - 1\<bar> < 0.1 \<and>
         (\<exists>xs2 ys2. project_camera_0_to_sensor_1 tri xc yc zc = Inr (xs2, ys2))"
proof -
  have "z2 tri xc yc zc = 1 / psi2 tri xc yc zc * psi2 tri xc yc zc"
    by (simp add: z2_def F2_T_row2 psi2_def)
  then have one: "z2 tri xc yc zc = 1"
    using assms(2) by simp
  then show ?thesis
    using assms(2) by (simp add: project_camera_0_to_sensor_1_def Let_def)
qed

theorem project_camera_0_to_sensor_1_z2_witness:
  "psi2 example_triangulation 1 2 4 = 4 \<and> z2 example_triangulation 1 2 4 = 1 \<and>
   project_camera_0_to_sensor_1 example_triangulation 1 2 4 = Inr (3 / 2, 3 / 2)"
proof -
  have wf: "wf_calibration example_triangulation"
    by (simp add: example_triangulation_def wf_calibration_def identity4_def)
  have p: "psi2 example_triangulation 1 2 4 = 4"
    by (simp add: psi2_def example_triangulation_def)
  have z: "z2 example_triangulation 1 2 4 = 1"
    using project_camera_0_to_sensor_1_z2 [OF wf, of 1 2 4] p by simp
  have "project_camera_0_to_sensor_1 example_triangulation 1 2 4 = Inr (3 / 2, 3 / 2)"
    using p z
    by (simp add: project_camera_0_to_sensor_1_def Let_def F2_T_def F2_def
        example_triangulation_def upt_0_3 upt_0_4)
  then show ?thesis using p z by simp
qed

section \<open>The static buffers of triangulate\<close>

lemma length_3: "length xs = 3 \<Longrightarrow> \<exists>a b c. xs = [a, b, c]"
  by (auto simp: length_Suc_conv eval_nat_numeral)

lemma length_4: "length xs = 4 \<Longrightarrow> \<exists>a b c d. xs = [a, b, c, d]"
  by (auto simp: length_Suc_conv eval_nat_numeral)

lemma length_9: "length xs = 9 \<Longrightarrow> \<exists>a b c d e f g h i. xs = [a, b, c, d, e, f, g, h, i]"
  by (auto simp: length_Suc_conv eval_nat_numeral)

lemma shape_4x3: "map length A = [3, 3, 3, 3] \<Longrightarrow>
  \<exists>a0 a1 a2 b0 b1 b2 c0 c1 c2 d0 d1 d2. A = [[a0, a1, a2], [b0, b1, b2], [c0, c1, c2], [d0, d1, d2]]"
  by (auto simp: map_eq_Cons_conv dest!: length_3)

lemma shape_3x3: "map length A = [3, 3, 3] \<Longrightarrow>
  \<exists>a0 a1 a2 b0 b1 b2 c0 c1 c2. A = [[a0, a1, a2], [b0, b1, b2], [c0, c1, c2]]"
  by (auto simp: map_eq_Cons_conv dest!: length_3)

lemma shape_3x4: "map length A = [4, 4, 4] \<Longrightarrow>
  \<exists>a0 a1 a2 a3 b0 b1 b2 b3 c0 c1 c2 c3. A = [[a0, a1, a2, a3], [b0, b1, b2, b3], [c0, c1, c2, c3]]"
  by (auto simp: map_eq_Cons_conv dest!: length_4)

lemma upt_0_9: "[0..<9] = [0, 1, 2, 3, 4, 5, 6, 7, 8]"
  by (simp add: upt_rec)

lemma clear_storage_eq:
  assumes "wf_statics s"
  shows "clear_storage s = s\<lparr>st_M := zero_mat 4 3, st_MTM := zero_mat 3 3, st_MTMMT := zero_mat 3 4,
     st_XYZc0 := replicate 4 0, st_XYZ := replicate 4 0, st_IPIV := replicate 4 0, st_r := replicate 4 0,
     st_WORK := replicate 9 0\<rparr>"
proof -
  have wf: "map length (st_M s) = [3, 3, 3, 3]" "map length (st_MTM s) = [3, 3, 3]"
    "map length (st_MTMMT s) = [4, 4, 4]" "length (st_r s) = 4" "length (st_XYZc0 s) = 4"
    "length (st_XYZ s) = 4" "length (st_IPIV s) = 4" "length (st_WORK s) = 9"
    using assms by (simp_all add: wf_statics_def)
  obtain a0 a1 a2 b0 b1 b2 c0 c1 c2 d0 d1 d2 where M: "st_M s = [[a0, a1, a2], [b0, b1, b2], [c0, c1, c2], [d0, d1, d2]]"
    using shape_4x3 [OF wf(1)] by blast
  obtain e0 e1 e2 f0 f1 f2 g0 g1 g2 where MTM: "st_MTM s = [[e0, e1, e2], [f0, f1, f2], [g0, g1, g2]]"
    using shape_3x3 [OF wf(2)] by blast
  obtain h0 h1 h2 h3 i0 i1 i2 i3 j0 j1 j2 j3 where MTMMT: "st_MTMMT s = [[h0, h1, h2, h3], [i0, i1, i2, i3], [j0, j1, j2, j3]]"
    using shape_3x4 [OF wf(3)] by blast
  obtain r0 r1 r2 r3 where r: "st_r s = [r0, r1, r2, r3]"
    using length_4 [OF wf(4)] by blast
  obtain p0 p1 p2 p3 where p: "st_XYZc0 s = [p0, p1, p2, p3]"
    using length_4 [OF wf(5)] by blast
  obtain q0 q1 q2 q3 where q: "st_XYZ s = [q0, q1, q2, q3]"
    using length_4 [OF wf(6)] by blast
  obtain v0 v1 v2 v3 where v: "st_IPIV s = [v0, v1, v2, v3]"
    using length_4 [OF wf(7)] by blast
  obtain w0 w1 w2 w3 w4 w5 w6 w7 w8 where w: "st_WORK s = [w0, w1, w2, w3, w4, w5, w6, w7, w8]"
    using length_9 [OF wf(8)] by blast
  show ?thesis
    by (simp add: clear_storage_def LWORK_def Let_def upt_0_3 upt_0_4 upt_0_9 mat_set_def M MTM MTMMT r p q v w
        zero_mat_def eval_nat_numeral)
qed

lemma calculate_M_eq:
  assumes "st_M s = zero_mat 4 3" and "st_r s = replicate 4 0"
  shows "calculate_M tri s =
    s\<lparr>st_M := design_matrix tri (st_xc0 s) (st_yc0 s) (st_xc1 s) (st_yc1 s),
      st_cmx := cal_intrinsics tri ! 1 ! 0 - st_xc1 s,
      st_cmy := cal_intrinsics tri ! 1 ! 1 - st_yc1 s,
      st_r := design_rhs tri (st_xc1 s) (st_yc1 s)\<rparr>"
  using assms
  by (simp add: calculate_M_def design_matrix_def design_rhs_def Let_def mat_set_def zero_mat_def
      eval_nat_numeral)

lemma compute_MTM_eq:
  assumes "map length (st_M s) = [3, 3, 3, 3]" and "st_MTM s = zero_mat 3 3"
  shows "compute_MTM s = s\<lparr>st_MTM := normal_matrix (st_M s)\<rparr>"
proof -
  obtain a0 a1 a2 b0 b1 b2 c0 c1 c2 d0 d1 d2 where M: "st_M s = [[a0, a1, a2], [b0, b1, b2], [c0, c1, c2], [d0, d1, d2]]"
    using shape_4x3 [OF assms(1)] by blast
  show ?thesis
    by (simp add: compute_MTM_def normal_matrix_def upt_0_3 upt_0_4 mat_set_def zero_mat_def M assms(2)
        eval_nat_numeral)
qed

lemma compute_MTMMT_eq:
  assumes "map length (st_M s) = [3, 3, 3, 3]" and "map length (st_MTM s) = [3, 3, 3]"
    and "st_MTMMT s = zero_mat 3 4"
  shows "compute_MTMMT s = s\<lparr>st_MTMMT := pseudo_inverse (st_MTM s) (st_M s)\<rparr>"
proof -
  obtain a0 a1 a2 b0 b1 b2 c0 c1 c2 d0 d1 d2 where M: "st_M s = [[a0, a1, a2], [b0, b1, b2], [c0, c1, c2], [d0, d1, d2]]"
    using shape_4x3 [OF assms(1)] by blast
  obtain e0 e1 e2 f0 f1 f2 g0 g1 g2 where MTM: "st_MTM s = [[e0, e1, e2], [f0, f1, f2], [g0, g1, g2]]"
    using shape_3x3 [OF assms(2)] by blast
  show ?thesis
    by (simp add: compute_MTMMT_def pseudo_inverse_def upt_0_3 upt_0_4 mat_set_def zero_mat_def M MTM
        assms(3) eval_nat_numeral)
qed

lemma compute_XYZc0_eq:
  assumes "map length (st_MTMMT s) = [4, 4, 4]" and "length (st_r s) = 4"
    and "st_XYZc0 s = replicate 4 0"
  shows "compute_XYZc0 s = s\<lparr>st_XYZc0 := mat_vec 3 4 (st_MTMMT s) (st_r s) @ [1]\<rparr>"
proof -
  obtain h0 h1 h2 h3 i0 i1 i2 i3 j0 j1 j2 j3 where MTMMT: "st_MTMMT s = [[h0, h1, h2, h3], [i0, i1, i2, i3], [j0, j1, j2, j3]]"
    using shape_3x4 [OF assms(1)] by blast
  obtain r0 r1 r2 r3 where r: "st_r s = [r0, r1, r2, r3]"
    using length_4 [OF assms(2)] by blast
  show ?thesis
    by (simp add: compute_XYZc0_def mat_vec_def Let_def upt_0_3 upt_0_4 MTMMT r assms(3) eval_nat_numeral)
qed

lemma compute_XYZ_eq:
  assumes "length (st_XYZc0 s) = 4" and "st_XYZ s = replicate 4 0"
  shows "compute_XYZ tri s = s\<lparr>st_XYZ := mat_vec 4 4 (trans_extrinsics tri) (st_XYZc0 s)\<rparr>"
proof -
  obtain p0 p1 p2 p3 where p: "st_XYZc0 s = [p0, p1, p2, p3]"
    using length_4 [OF assms(1)] by blast
  show ?thesis
    by (simp add: compute_XYZ_def mat_vec_def upt_0_4 p assms(2) eval_nat_numeral)
qed


section \<open>The LAPACK model\<close>

lemma mat_det_3x3: "mat_det [[a, b, c], [d, e, f], [g, h, i]] =
   a * (e * i - f * h) - b * (d * i - f * g) + c * (d * h - e * g)"
  by (simp add: drop_nth_def)

lemma mat_adj_3x3: "mat_adj [[a, b, c], [d, e, f], [g, h, i]] =
  [[e * i - f * h, c * h - b * i, b * f - c * e],
   [f * g - d * i, a * i - c * g, c * d - a * f],
   [d * h - e * g, b * g - a * h, a * e - b * d]]"
  by (simp add: mat_adj_def mat_minor_def drop_nth_def)

lemma mat_inverse_3x3_left:
  fixes a b c d e f g h i :: real
  defines "A \<equiv> [[a, b, c], [d, e, f], [g, h, i]]"
  assumes "mat_det A \<noteq> 0"
  shows "mat_mul3 (mat_inverse A) A = identity3"
proof -
  define D where "D = mat_det A"
  have D: "D = a * (e * i - f * h) - b * (d * i - f * g) + c * (d * h - e * g)"
    unfolding D_def A_def by (rule mat_det_3x3)
  have D0: "D \<noteq> 0"
    unfolding D_def by (rule assms(2))
  have inv: "mat_inverse A = [[(e * i - f * h) / D, (c * h - b * i) / D, (b * f - c * e) / D],
   [(f * g - d * i) / D, (a * i - c * g) / D, (c * d - a * f) / D],
   [(d * h - e * g) / D, (b * g - a * h) / D, (a * e - b * d) / D]]"
    unfolding mat_inverse_def D_def [symmetric] by (simp add: A_def mat_adj_3x3)
  have "mat_mul3 (mat_inverse A) A = [[D / D, 0 / D, 0 / D], [0 / D, D / D, 0 / D], [0 / D, 0 / D, D / D]]"
    unfolding inv unfolding A_def mat_mul3_def upt_0_3
    by (simp add: add_divide_distrib [symmetric] D algebra_simps)
  then show ?thesis using D0 by (simp add: identity3_def)
qed


lemma pivot_fold_bounds:
  assumes "list_all (\<lambda>i. k \<le> i \<and> i < n) xs" and "k \<le> p" and "p < n"
  shows "k \<le> fold (\<lambda>i p. if \<bar>A ! i ! c\<bar> > \<bar>A ! p ! c\<bar> then i else p) xs p \<and>
         fold (\<lambda>i p. if \<bar>A ! i ! c\<bar> > \<bar>A ! p ! c\<bar> then i else p) xs p < n"
  using assms by (induction xs arbitrary: p) auto

lemma pivot_row_bounds:
  assumes "k < n"
  shows "k \<le> pivot_row A n k \<and> pivot_row A n k < n"
proof -
  have "list_all (\<lambda>i. k \<le> i \<and> i < n) [Suc k..<n]"
    by (simp add: list_all_iff)
  from pivot_fold_bounds [OF this, of k A k] assms show ?thesis
    by (simp add: pivot_row_def)
qed

lemma square_mat_swap:
  assumes "square_mat n A" and "k < n" and "p < n"
  shows "square_mat n (A[k := A ! p, p := A ! k])"
proof -
  have len: "length A = n" and rows: "\<And>i. i < n \<Longrightarrow> length (A ! i) = n"
    using assms(1) unfolding square_mat_def
    by (metis length_map length_replicate, metis length_map length_replicate nth_map nth_replicate)
  show ?thesis
    unfolding square_mat_def
    by (rule nth_equalityI) (auto simp: len rows assms nth_list_update)
qed

lemma getrf_step_shape:
  assumes "k < n" and "square_mat n A" and "getrf_step n k (A, ipiv, info) = (A', ipiv', info')"
  shows "square_mat n A' \<and> length ipiv' = length ipiv"
proof -
  define p where "p = pivot_row A n k"
  define B where "B = A[k := A ! p, p := A ! k]"
  have p: "p < n" using pivot_row_bounds [OF assms(1)] by (simp add: p_def)
  have B: "square_mat n B" unfolding B_def by (rule square_mat_swap [OF assms(2,1) p])
  have rows: "\<And>i. i < n \<Longrightarrow> length (B ! i) = n"
    using B unfolding square_mat_def
    by (metis length_map length_replicate nth_map nth_replicate)
  have E: "square_mat n (map (\<lambda>i. if i \<le> k then B ! i else eliminate_row n k (B ! k) (B ! i)) [0..<n])"
    unfolding square_mat_def
    by (rule nth_equalityI) (auto simp: rows eliminate_row_def Let_def)
  have step: "getrf_step n k (A, ipiv, info) =
      (if B ! k ! k = 0 then (B, ipiv[k := int p + 1], if info = 0 then int k + 1 else info)
       else (map (\<lambda>i. if i \<le> k then B ! i else eliminate_row n k (B ! k) (B ! i)) [0..<n],
             ipiv[k := int p + 1], info))"
    by (simp add: getrf_step_def Let_def p_def B_def)
  show ?thesis
  proof (cases "B ! k ! k = 0")
    case True
    with assms(3) step B show ?thesis by auto
  next
    case False
    with assms(3) step E show ?thesis by auto
  qed
qed

lemma getrf_fold_shape:
  assumes "list_all (\<lambda>k. k < n) ks" and "square_mat n A"
    and "fold (getrf_step n) ks (A, ipiv, info) = (A', ipiv', info')"
  shows "square_mat n A' \<and> length ipiv' = length ipiv"
  using assms
proof (induction ks arbitrary: A ipiv info)
  case Nil
  then show ?case by simp
next
  case (Cons k ks)
  obtain B jpiv jnfo where step: "getrf_step n k (A, ipiv, info) = (B, jpiv, jnfo)"
    by (metis prod_cases3)
  have k: "k < n" using Cons.prems(1) by simp
  from getrf_step_shape [OF k Cons.prems(2) step]
  have B: "square_mat n B" and j: "length jpiv = length ipiv" by simp_all
  from Cons.prems(3) step have "fold (getrf_step n) ks (B, jpiv, jnfo) = (A', ipiv', info')"
    by simp
  from Cons.IH [OF _ B this] Cons.prems(1) j show ?case by simp
qed

lemma GETRF_shape:
  assumes "square_mat n A" and "GETRF n A ipiv = (A', ipiv', info')"
  shows "square_mat n A' \<and> length ipiv' = length ipiv"
proof -
  have "list_all (\<lambda>k. k < n) [0..<n]" by (simp add: list_all_iff)
  from getrf_fold_shape [OF this assms(1)] assms(2) show ?thesis
    by (simp add: GETRF_def)
qed

lemma mat_inverse_shape: "length A = n \<Longrightarrow> square_mat n (mat_inverse A)"
  unfolding square_mat_def mat_inverse_def mat_adj_def
  by (rule nth_equalityI) auto


section \<open>triangulate in closed form\<close>

lemma GETRF_GETRI_result_shape:
  assumes "map length A = [3, 3, 3]" and "length ipiv = 4"
    and "GETRF_GETRI_result 3 A ipiv = (B, ipiv', info)"
  shows "map length B = [3, 3, 3] \<and> length ipiv' = 4"
proof -
  have sq: "square_mat 3 A"
    using assms(1) by (simp add: square_mat_def eval_nat_numeral)
  obtain LU jpiv jnfo where g: "GETRF 3 A ipiv = (LU, jpiv, jnfo)"
    by (metis prod_cases3)
  from GETRF_shape [OF sq g] have LU: "square_mat 3 LU" "length jpiv = 4"
    using assms(2) by simp_all
  have "length (map length A) = 3" unfolding assms(1) by simp
  then have "length A = 3" by simp
  from mat_inverse_shape [OF this] have inv: "square_mat 3 (mat_inverse A)" .
  have "square_mat 3 B \<and> length ipiv' = 4"
    using assms(3) g LU inv by (auto simp: GETRF_GETRI_result_def split: if_splits)
  then show ?thesis by (simp add: square_mat_def eval_nat_numeral)
qed

lemma design_matrix_shape: "map length (design_matrix tri a b c d) = [3, 3, 3, 3]"
  by (simp add: design_matrix_def Let_def)

lemma normal_matrix_shape: "map length (normal_matrix M) = [3, 3, 3]"
  by (simp add: normal_matrix_def upt_0_3)

lemma pseudo_inverse_shape: "map length (pseudo_inverse B M) = [4, 4, 4]"
  by (simp add: pseudo_inverse_def upt_0_3 upt_0_4)

lemma design_rhs_length: "length (design_rhs tri c d) = 4"
  by (simp add: design_rhs_def Let_def)

lemma mat_vec_length: "length (mat_vec m n A x) = m"
  by (simp add: mat_vec_def)

lemma triangulate_solve_eq:
  assumes "wf_statics s"
  shows "\<exists>s'. triangulate_solve tri s =
           Inr (point_of (camera_0_vec tri (st_xc0 s) (st_yc0 s) (st_xc1 s) (st_yc1 s)),
                point_of (world_vec tri (camera_0_vec tri (st_xc0 s) (st_yc0 s) (st_xc1 s) (st_yc1 s))),
                tri, s') \<and> wf_statics s' \<and>
              st_INFO s' = snd (snd (GETRF_GETRI_result 3
                (normal_matrix (design_matrix tri (st_xc0 s) (st_yc0 s) (st_xc1 s) (st_yc1 s)))
                (replicate 4 0)))"
proof -
  define M where "M = design_matrix tri (st_xc0 s) (st_yc0 s) (st_xc1 s) (st_yc1 s)"
  define r where "r = design_rhs tri (st_xc1 s) (st_yc1 s)"
  define s1 where "s1 = clear_storage s"
  define s2 where "s2 = calculate_M tri s1"
  define s3 where "s3 = compute_MTM s2"
  obtain B ipiv info where res: "GETRF_GETRI_result 3 (normal_matrix M) (replicate 4 0) = (B, ipiv, info)"
    by (metis prod_cases3)
  define s4 where "s4 = s3\<lparr>st_MTM := B, st_IPIV := ipiv, st_INFO := info\<rparr>"
  define s5 where "s5 = compute_MTMMT s4"
  define s6 where "s6 = compute_XYZc0 s5"
  define s7 where "s7 = compute_XYZ tri s6"
  have e1: "s1 = s\<lparr>st_M := zero_mat 4 3, st_MTM := zero_mat 3 3, st_MTMMT := zero_mat 3 4,
     st_XYZc0 := replicate 4 0, st_XYZ := replicate 4 0, st_IPIV := replicate 4 0, st_r := replicate 4 0,
     st_WORK := replicate 9 0\<rparr>"
    unfolding s1_def by (rule clear_storage_eq [OF assms])
  have e2: "s2 = s1\<lparr>st_M := M, st_cmx := cal_intrinsics tri ! 1 ! 0 - st_xc1 s,
      st_cmy := cal_intrinsics tri ! 1 ! 1 - st_yc1 s, st_r := r\<rparr>"
    unfolding s2_def M_def r_def using calculate_M_eq [of s1 tri] by (simp add: e1)
  have e3: "s3 = s2\<lparr>st_MTM := normal_matrix M\<rparr>"
    unfolding s3_def using compute_MTM_eq [of s2] by (simp add: e2 e1 M_def design_matrix_shape)
  have shB: "map length B = [3, 3, 3]" "length ipiv = 4"
    using GETRF_GETRI_result_shape [OF normal_matrix_shape _ res] by simp_all
  have e5: "s5 = s4\<lparr>st_MTMMT := pseudo_inverse B M\<rparr>"
    unfolding s5_def using compute_MTMMT_eq [of s4]
    by (simp add: s4_def e3 e2 e1 M_def design_matrix_shape shB)
  have e6: "s6 = s5\<lparr>st_XYZc0 := mat_vec 3 4 (pseudo_inverse B M) r @ [1]\<rparr>"
    unfolding s6_def using compute_XYZc0_eq [of s5]
    by (simp add: e5 s4_def e3 e2 e1 pseudo_inverse_shape r_def design_rhs_length)
  have e7: "s7 = s6\<lparr>st_XYZ := mat_vec 4 4 (trans_extrinsics tri) (mat_vec 3 4 (pseudo_inverse B M) r @ [1])\<rparr>"
    unfolding s7_def using compute_XYZ_eq [of s6 tri]
    by (simp add: e6 e5 s4_def e3 e2 e1 mat_vec_length)
  have cam: "camera_0_vec tri (st_xc0 s) (st_yc0 s) (st_xc1 s) (st_yc1 s) = mat_vec 3 4 (pseudo_inverse B M) r"
    by (simp add: camera_0_vec_def Let_def M_def [symmetric] r_def [symmetric] res)
  have m3: "st_MTM s3 = normal_matrix M" "st_IPIV s3 = replicate 4 0"
    by (simp_all add: e3 e2 e1)
  have run: "triangulate_solve tri s = Inr ((st_XYZc0 s6 ! 0, st_XYZc0 s6 ! 1, st_XYZc0 s6 ! 2),
      (st_XYZ s7 ! 0, st_XYZ s7 ! 1, st_XYZ s7 ! 2), tri, s7)"
    unfolding triangulate_solve_def Let_def s1_def [symmetric] s2_def [symmetric] s3_def [symmetric]
      GETRF_GETRI_def m3 res
    by (simp only: sum.case prod.case s4_def [symmetric] s5_def [symmetric] s6_def [symmetric]
        s7_def [symmetric])
  have len3: "length (mat_vec 3 4 (pseudo_inverse B M) r) = 3" by (rule mat_vec_length)
  have wf7: "wf_statics s7"
    by (simp add: wf_statics_def e7 e6 e5 s4_def e3 e2 e1 M_def design_matrix_shape shB
        pseudo_inverse_shape mat_vec_length r_def design_rhs_length)
  have info: "st_INFO s7 = info"
    by (simp add: e7 e6 e5 s4_def)
  have res': "snd (snd (GETRF_GETRI_result 3
      (normal_matrix (design_matrix tri (st_xc0 s) (st_yc0 s) (st_xc1 s) (st_yc1 s)))
      (replicate 4 0))) = info"
    using res by (simp add: M_def)
  show ?thesis
    unfolding res' using run wf7 info len3
    by (simp add: cam world_vec_def point_of_def e7 e6 nth_append)
qed


lemma radial_result:
  assumes "cal_intrinsics tri \<noteq> []"
  shows "correct_lens_distortion_radial tri s x_s y_s camera_id =
     Inr (fst (radial_corrected tri x_s y_s camera_id), snd (radial_corrected tri x_s y_s camera_id),
          snd (snd (projr (correct_lens_distortion_radial tri s x_s y_s camera_id))))"
  using assms
  by (simp add: correct_lens_distortion_radial_def radial_corrected_def Let_def)

lemma radial_statics:
  fixes s :: statics and x_s y_s :: real and camera_id :: nat
  assumes "cal_intrinsics tri \<noteq> []"
  defines "s' \<equiv> snd (snd (projr (correct_lens_distortion_radial tri s x_s y_s camera_id)))"
  shows "wf_statics s' = wf_statics s" and "st_xc0 s' = st_xc0 s" and "st_yc0 s' = st_yc0 s"
    and "st_xc1 s' = st_xc1 s" and "st_yc1 s' = st_yc1 s"
  using assms(1)
  by (simp_all add: s'_def correct_lens_distortion_radial_def Let_def wf_statics_def)

lemma triangulate_eq:
  assumes "wf_statics s" and "flag \<longrightarrow> cal_intrinsics tri \<noteq> []"
  shows "\<exists>s'. triangulate tri s x0 y0 x1 y1 flag =
           Inr (point_of (triangulated_camera_0 tri x0 y0 x1 y1 flag),
                point_of (world_vec tri (triangulated_camera_0 tri x0 y0 x1 y1 flag)), tri, s') \<and>
              wf_statics s'"
proof (cases flag)
  case False
  define t where "t = s\<lparr>st_xc0 := x0, st_yc0 := y0, st_xc1 := x1, st_yc1 := y1\<rparr>"
  have wf: "wf_statics t" using assms(1) by (simp add: t_def wf_statics_def)
  have run: "triangulate tri s x0 y0 x1 y1 flag = triangulate_solve tri t"
    using False by (simp add: triangulate_def Let_def t_def)
  from triangulate_solve_eq [OF wf, of tri] show ?thesis
    unfolding run using False by (auto simp: triangulated_camera_0_def t_def)
next
  case True
  then have ne: "cal_intrinsics tri \<noteq> []" using assms(2) by simp
  define c0 where "c0 = radial_corrected tri x0 y0 0"
  define c1 where "c1 = radial_corrected tri x1 y1 1"
  define t0 where "t0 = s\<lparr>st_xc0 := x0, st_yc0 := y0, st_xc1 := x1, st_yc1 := y1\<rparr>"
  define u0 where "u0 = snd (snd (projr (correct_lens_distortion_radial tri t0 x0 y0 0)))"
  define t1 where "t1 = u0\<lparr>st_xc0 := fst c0, st_yc0 := snd c0\<rparr>"
  define u1 where "u1 = snd (snd (projr (correct_lens_distortion_radial tri t1 x1 y1 1)))"
  define t2 where "t2 = u1\<lparr>st_xc1 := fst c1, st_yc1 := snd c1\<rparr>"
  have r0: "correct_lens_distortion_radial tri t0 x0 y0 0 = Inr (fst c0, snd c0, u0)"
    unfolding c0_def u0_def by (rule radial_result [OF ne])
  have r1: "correct_lens_distortion_radial tri t1 x1 y1 1 = Inr (fst c1, snd c1, u1)"
    unfolding c1_def u1_def by (rule radial_result [OF ne])
  have wf0: "wf_statics t0" using assms(1) by (simp add: t0_def wf_statics_def)
  have u0: "wf_statics u0" "st_xc1 u0 = x1" "st_yc1 u0 = y1"
    using radial_statics [OF ne, of t0 x0 y0 0] wf0 by (simp_all add: u0_def t0_def)
  have wf1: "wf_statics t1" "st_xc1 t1 = x1" "st_yc1 t1 = y1"
    using u0 by (simp_all add: t1_def wf_statics_def)
  have u1: "wf_statics u1" "st_xc0 u1 = fst c0" "st_yc0 u1 = snd c0"
    using radial_statics [OF ne, of t1 x1 y1 1] wf1 by (simp_all add: u1_def t1_def)
  have wf: "wf_statics t2" using u1 by (simp add: t2_def wf_statics_def)
  have t0c: "st_xc0 t0 = x0" "st_yc0 t0 = y0" by (simp_all add: t0_def)
  have run: "triangulate tri s x0 y0 x1 y1 flag = triangulate_solve tri t2"
    using True
    unfolding triangulate_def Let_def
    by (simp add: t0_def [symmetric] t0c r0 t1_def [symmetric] u0 wf1 r1 [unfolded One_nat_def]
        t2_def [symmetric])
  have coords: "st_xc0 t2 = fst c0" "st_yc0 t2 = snd c0" "st_xc1 t2 = fst c1" "st_yc1 t2 = snd c1"
    using u1 by (simp_all add: t2_def)
  from triangulate_solve_eq [OF wf, of tri] show ?thesis
    unfolding run coords using True by (auto simp: triangulated_camera_0_def c0_def c1_def)
qed

lemma triangulate_no_calibration:
  assumes "cal_intrinsics tri = []"
  shows "triangulate tri s x0 y0 x1 y1 True = Inl (Assertion_Failed ''cal_intrinsics_.size()>0'')"
  using assms by (simp add: triangulate_def Let_def correct_lens_distortion_radial_def)

lemma triangulate_uncorrected_eq:
  assumes "wf_statics s"
  shows "\<exists>s'. triangulate tri s x0 y0 x1 y1 False =
           Inr (point_of (camera_0_vec tri x0 y0 x1 y1),
                point_of (world_vec tri (camera_0_vec tri x0 y0 x1 y1)), tri, s') \<and>
              wf_statics s' \<and>
              st_INFO s' = snd (snd (GETRF_GETRI_result 3
                (normal_matrix (design_matrix tri x0 y0 x1 y1)) (replicate 4 0)))"
proof -
  define t where "t = s\<lparr>st_xc0 := x0, st_yc0 := y0, st_xc1 := x1, st_yc1 := y1\<rparr>"
  have wf: "wf_statics t" using assms by (simp add: t_def wf_statics_def)
  have run: "triangulate tri s x0 y0 x1 y1 False = triangulate_solve tri t"
    by (simp add: triangulate_def Let_def t_def)
  from triangulate_solve_eq [OF wf, of tri] show ?thesis
    unfolding run by (simp add: t_def)
qed

text \<open>The handler of \<^verbatim>\<open>triangulate\<close> is never entered.\<close>

lemma triangulate_solve_returns: "triangulate_solve tri s \<noteq> Inl e"
proof -
  obtain A ipiv info where res:
    "GETRF_GETRI_result 3 (st_MTM (compute_MTM (calculate_M tri (clear_storage s))))
       (st_IPIV (compute_MTM (calculate_M tri (clear_storage s)))) = (A, ipiv, info)"
    by (metis prod_cases3)
  show ?thesis
    unfolding triangulate_solve_def Let_def GETRF_GETRI_def res
    by (simp only: sum.case prod.case sum.distinct not_False_eq_True)
qed

lemma triangulate_never_could_not_invert:
  "triangulate tri s x0 y0 x1 y1 flag \<noteq> Inl Could_Not_Invert_M"
  by (simp add: triangulate_def correct_lens_distortion_radial_def Let_def triangulate_solve_returns)

text \<open>What LAPACK leaves of \<open>diag(2, 2, 0)\<close>: the factors, and \<^verbatim>\<open>INFO = 3\<close>.\<close>

lemma GETRF_GETRI_result_diag_2_2_0:
  "GETRF_GETRI_result 3 [[2, 0, 0], [0, 2, 0], [0, 0, 0]] [0, 0, 0, 0] =
     ([[2, 0, 0], [0, 2, 0], [0, 0, 0]], [1, 2, 3, 0], 3)"
proof -
  have "GETRF 3 [[2, 0, 0], [0, 2, 0], [0, 0, 0]] [0, 0, 0, 0] =
     ([[2, 0, 0], [0, 2, 0], [0, 0, 0]], [1, 2, 3, 0], 3)"
    by (simp add: GETRF_def upt_0_3 getrf_step_def pivot_row_def eliminate_row_def upt_rec Let_def)
  then show ?thesis
    unfolding GETRF_GETRI_result_def mat_det_3x3 by simp
qed

lemma replicate_4: "replicate 4 x = [x, x, x, x]"
  by (simp add: eval_nat_numeral)

lemma pseudo_inverse_recovers:
  fixes x y z :: real
  assumes M: "map length M = [3, 3, 3, 3]"
    and B: "map length B = [3, 3, 3]"
    and inv: "mat_mul3 B (normal_matrix M) = identity3"
    and r: "r = mat_vec 4 3 M [x, y, z]"
  shows "mat_vec 3 4 (pseudo_inverse B M) r = [x, y, z]"
proof -
  obtain m00 m01 m02 m10 m11 m12 m20 m21 m22 m30 m31 m32 where
    Ms: "M = [[m00, m01, m02], [m10, m11, m12], [m20, m21, m22], [m30, m31, m32]]"
    using shape_4x3 [OF M] by blast
  obtain b00 b01 b02 b10 b11 b12 b20 b21 b22 where
    Bs: "B = [[b00, b01, b02], [b10, b11, b12], [b20, b21, b22]]"
    using shape_3x3 [OF B] by blast
  define n00 where "n00 = m00 * m00 + m10 * m10 + m20 * m20 + m30 * m30"
  define n01 where "n01 = m00 * m01 + m10 * m11 + m20 * m21 + m30 * m31"
  define n02 where "n02 = m00 * m02 + m10 * m12 + m20 * m22 + m30 * m32"
  define n11 where "n11 = m01 * m01 + m11 * m11 + m21 * m21 + m31 * m31"
  define n12 where "n12 = m01 * m02 + m11 * m12 + m21 * m22 + m31 * m32"
  define n22 where "n22 = m02 * m02 + m12 * m12 + m22 * m22 + m32 * m32"
  have N: "normal_matrix M = [[n00, n01, n02], [n01, n11, n12], [n02, n12, n22]]"
    by (simp add: normal_matrix_def Ms upt_0_3 upt_0_4 n00_def n01_def n02_def n11_def n12_def
        n22_def mult.commute)
  have I: "b00 * n00 + b01 * n01 + b02 * n02 = 1" "b00 * n01 + b01 * n11 + b02 * n12 = 0"
    "b00 * n02 + b01 * n12 + b02 * n22 = 0"
    "b10 * n00 + b11 * n01 + b12 * n02 = 0" "b10 * n01 + b11 * n11 + b12 * n12 = 1"
    "b10 * n02 + b11 * n12 + b12 * n22 = 0"
    "b20 * n00 + b21 * n01 + b22 * n02 = 0" "b20 * n01 + b21 * n11 + b22 * n12 = 0"
    "b20 * n02 + b21 * n12 + b22 * n22 = 1"
    using inv unfolding N Bs by (simp_all add: mat_mul3_def identity3_def upt_0_3 add.assoc)
  define r0 where "r0 = m00 * x + m01 * y + m02 * z"
  define r1 where "r1 = m10 * x + m11 * y + m12 * z"
  define r2 where "r2 = m20 * x + m21 * y + m22 * z"
  define r3 where "r3 = m30 * x + m31 * y + m32 * z"
  have rs: "r = [r0, r1, r2, r3]"
    by (simp add: r mat_vec_def Ms upt_0_3 upt_0_4 r0_def r1_def r2_def r3_def add.assoc)
  have row: "(c0 * m00 + c1 * m01 + c2 * m02) * r0 + (c0 * m10 + c1 * m11 + c2 * m12) * r1
       + (c0 * m20 + c1 * m21 + c2 * m22) * r2 + (c0 * m30 + c1 * m31 + c2 * m32) * r3
     = (c0 * n00 + c1 * n01 + c2 * n02) * x + (c0 * n01 + c1 * n11 + c2 * n12) * y
       + (c0 * n02 + c1 * n12 + c2 * n22) * z" for c0 c1 c2
    unfolding r0_def r1_def r2_def r3_def n00_def n01_def n02_def n11_def n12_def n22_def
    by (simp add: algebra_simps)
  have P: "mat_vec 3 4 (pseudo_inverse B M) r =
     [(b00 * m00 + b01 * m01 + b02 * m02) * r0 + (b00 * m10 + b01 * m11 + b02 * m12) * r1
       + (b00 * m20 + b01 * m21 + b02 * m22) * r2 + (b00 * m30 + b01 * m31 + b02 * m32) * r3,
      (b10 * m00 + b11 * m01 + b12 * m02) * r0 + (b10 * m10 + b11 * m11 + b12 * m12) * r1
       + (b10 * m20 + b11 * m21 + b12 * m22) * r2 + (b10 * m30 + b11 * m31 + b12 * m32) * r3,
      (b20 * m00 + b21 * m01 + b22 * m02) * r0 + (b20 * m10 + b21 * m11 + b22 * m12) * r1
       + (b20 * m20 + b21 * m21 + b22 * m22) * r2 + (b20 * m30 + b21 * m31 + b22 * m32) * r3]"
    unfolding rs Ms Bs by (simp add: mat_vec_def pseudo_inverse_def upt_0_3 upt_0_4 add.assoc)
  show ?thesis
    unfolding P row by (simp add: I)
qed

lemma projections_solve_design_system:
  assumes p0: "project_camera_0_to_sensor_0 tri X Y Z = Inr (x0, y0)"
    and p1: "project_camera_0_to_sensor_1 tri X Y Z = Inr (x1, y1)"
  shows "design_rhs tri x1 y1 = mat_vec 4 3 (design_matrix tri x0 y0 x1 y1) [X, Y, Z]"
proof -
  have Z: "Z \<noteq> 0" using p0 by (auto simp: project_camera_0_to_sensor_0_def split: if_splits)
  have x0: "x0 = 1 / Z * (cal_intrinsics tri ! 0 ! 2 * X + cal_intrinsics tri ! 0 ! 4 * Y + cal_intrinsics tri ! 0 ! 0 * Z)"
    and y0: "y0 = 1 / Z * (cal_intrinsics tri ! 0 ! 3 * Y + cal_intrinsics tri ! 0 ! 1 * Z)"
    using p0 Z by (auto simp: project_camera_0_to_sensor_0_def Let_def)
  define psi where "psi = psi2 tri X Y Z"
  have psi: "psi \<noteq> 0" using p1 unfolding psi_def
    by (auto simp: project_camera_0_to_sensor_1_def split: if_splits)
  have xy1: "x1 = 1 / psi * (F2_T tri ! 0 ! 0 * X + F2_T tri ! 0 ! 1 * Y + F2_T tri ! 0 ! 2 * Z + F2_T tri ! 0 ! 3)"
    "y1 = 1 / psi * (F2_T tri ! 1 ! 0 * X + F2_T tri ! 1 ! 1 * Y + F2_T tri ! 1 ! 2 * Z + F2_T tri ! 1 ! 3)"
    using p1 psi unfolding psi_def
    by (auto simp: project_camera_0_to_sensor_1_def Let_def split: if_splits)
  have e0: "cal_intrinsics tri ! 0 ! 2 * X + cal_intrinsics tri ! 0 ! 4 * Y + (cal_intrinsics tri ! 0 ! 0 - x0) * Z = 0"
    unfolding x0 using Z by (simp add: field_simps)
  have e1: "cal_intrinsics tri ! 0 ! 3 * Y + (cal_intrinsics tri ! 0 ! 1 - y0) * Z = 0"
    unfolding y0 using Z by (simp add: field_simps)
  define e00 where "e00 = cal_extrinsics tri ! 0 ! 0"
  define e01 where "e01 = cal_extrinsics tri ! 0 ! 1"
  define e02 where "e02 = cal_extrinsics tri ! 0 ! 2"
  define e03 where "e03 = cal_extrinsics tri ! 0 ! 3"
  define e10 where "e10 = cal_extrinsics tri ! 1 ! 0"
  define e11 where "e11 = cal_extrinsics tri ! 1 ! 1"
  define e12 where "e12 = cal_extrinsics tri ! 1 ! 2"
  define e13 where "e13 = cal_extrinsics tri ! 1 ! 3"
  define e20 where "e20 = cal_extrinsics tri ! 2 ! 0"
  define e21 where "e21 = cal_extrinsics tri ! 2 ! 1"
  define e22 where "e22 = cal_extrinsics tri ! 2 ! 2"
  define e23 where "e23 = cal_extrinsics tri ! 2 ! 3"
  define cx where "cx = cal_intrinsics tri ! 1 ! 0"
  define cy where "cy = cal_intrinsics tri ! 1 ! 1"
  define fx where "fx = cal_intrinsics tri ! 1 ! 2"
  define fy where "fy = cal_intrinsics tri ! 1 ! 3"
  define fs where "fs = cal_intrinsics tri ! 1 ! 4"
  note ds = e00_def e01_def e02_def e03_def e10_def e11_def e12_def e13_def e20_def e21_def e22_def
    e23_def cx_def cy_def fx_def fy_def fs_def
  have psi_eq: "psi = e20 * X + e21 * Y + e22 * Z + e23"
    by (simp add: psi_def psi2_def ds)
  have F0: "F2_T tri ! 0 = [fx * e00 + fs * e10 + cx * e20, fx * e01 + fs * e11 + cx * e21,
       fx * e02 + fs * e12 + cx * e22, fx * e03 + fs * e13 + cx * e23]"
    and F1: "F2_T tri ! 1 = [fy * e10 + cy * e20, fy * e11 + cy * e21, fy * e12 + cy * e22, fy * e13 + cy * e23]"
    by (simp_all add: F2_T_def F2_def Let_def upt_0_3 upt_0_4 ds)
  have "x1 * psi = F2_T tri ! 0 ! 0 * X + F2_T tri ! 0 ! 1 * Y + F2_T tri ! 0 ! 2 * Z + F2_T tri ! 0 ! 3"
    using psi by (simp add: xy1(1))
  then have x1psi: "x1 * psi = fx * (e00 * X + e01 * Y + e02 * Z + e03) + fs * (e10 * X + e11 * Y + e12 * Z + e13) + cx * psi"
    unfolding F0 psi_eq by (simp add: algebra_simps)
  have "y1 * psi = F2_T tri ! 1 ! 0 * X + F2_T tri ! 1 ! 1 * Y + F2_T tri ! 1 ! 2 * Z + F2_T tri ! 1 ! 3"
    using psi by (simp add: xy1(2))
  then have y1psi: "y1 * psi = fy * (e10 * X + e11 * Y + e12 * Z + e13) + cy * psi"
    unfolding F1 psi_eq by (simp add: algebra_simps)
  have e2: "((cx - x1) * e20 + fx * e00 + fs * e10) * X + ((cx - x1) * e21 + fx * e01 + fs * e11) * Y
       + ((cx - x1) * e22 + fx * e02 + fs * e12) * Z = - fx * e03 - fs * e13 - (cx - x1) * e23"
  proof -
    have "((cx - x1) * e20 + fx * e00 + fs * e10) * X + ((cx - x1) * e21 + fx * e01 + fs * e11) * Y
       + ((cx - x1) * e22 + fx * e02 + fs * e12) * Z + fx * e03 + fs * e13 + (cx - x1) * e23
       = fx * (e00 * X + e01 * Y + e02 * Z + e03) + fs * (e10 * X + e11 * Y + e12 * Z + e13) + cx * psi - x1 * psi"
      unfolding psi_eq by (simp add: algebra_simps)
    also have "\<dots> = 0" unfolding x1psi by simp
    finally show ?thesis by simp
  qed
  have e3: "((cy - y1) * e20 + fy * e10) * X + ((cy - y1) * e21 + fy * e11) * Y
       + ((cy - y1) * e22 + fy * e12) * Z = - fy * e13 - (cy - y1) * e23"
  proof -
    have "((cy - y1) * e20 + fy * e10) * X + ((cy - y1) * e21 + fy * e11) * Y
       + ((cy - y1) * e22 + fy * e12) * Z + fy * e13 + (cy - y1) * e23
       = fy * (e10 * X + e11 * Y + e12 * Z + e13) + cy * psi - y1 * psi"
      unfolding psi_eq by (simp add: algebra_simps)
    also have "\<dots> = 0" unfolding y1psi by simp
    finally show ?thesis by simp
  qed
  show ?thesis
    unfolding design_rhs_def design_matrix_def Let_def mat_vec_def upt_0_3 upt_0_4 ds [symmetric]
    using e0 e1 e2 e3 by (simp add: add.assoc)
qed


lemma wf_example_statics: "wf_statics example_statics"
  by (simp add: wf_statics_def example_statics_def zero_mat_def eval_nat_numeral)

lemma wf_dirty_statics: "wf_statics dirty_statics"
  by (simp add: wf_statics_def dirty_statics_def eval_nat_numeral)

lemma wf_example_triangulation: "wf_calibration example_triangulation"
  by (simp add: example_triangulation_def wf_calibration_def identity4_def)

lemma camera_0_vec_inverse:
  assumes "mat_det (normal_matrix (design_matrix tri xc0 yc0 xc1 yc1)) \<noteq> 0"
  shows "camera_0_vec tri xc0 yc0 xc1 yc1 =
     mat_vec 3 4 (pseudo_inverse (mat_inverse (normal_matrix (design_matrix tri xc0 yc0 xc1 yc1)))
        (design_matrix tri xc0 yc0 xc1 yc1)) (design_rhs tri xc1 yc1)"
  using assms
  by (simp add: camera_0_vec_def Let_def GETRF_GETRI_result_def split: prod.splits)

section \<open>Inversion of a pose\<close>

lemma mat_det_affine:
  "mat_det [[a, b, c, p], [d, e, f, q], [g, h, i, r], [0, 0, 0, 1]] =
     a * (e * i - f * h) - b * (d * i - f * g) + c * (d * h - e * g)"
proof -
  have "mat_det [[a, b, c, p], [d, e, f, q], [g, h, i, r], [0, 0, 0, 1]] =
      a * mat_det [[e, f, q], [h, i, r], [0, 0, 1]] - b * mat_det [[d, f, q], [g, i, r], [0, 0, 1]]
      + c * mat_det [[d, e, q], [g, h, r], [0, 0, 1]] - p * mat_det [[d, e, f], [g, h, i], [0, 0, 0]]"
    by (simp add: drop_nth_def del: mat_det.simps(2) add: mat_det.simps(2) [of "[a, b, c, p]"])
  then show ?thesis
    by (simp only: mat_det_3x3) (simp add: algebra_simps)
qed

lemma mat_adj_affine:
  "mat_adj [[a, b, c, p], [d, e, f, q], [g, h, i, r], [0, 0, 0, 1]] =
    [[e * i - f * h, c * h - b * i, b * f - c * e,
        - (p * (e * i - f * h) + q * (c * h - b * i) + r * (b * f - c * e))],
     [f * g - d * i, a * i - c * g, c * d - a * f,
        - (p * (f * g - d * i) + q * (a * i - c * g) + r * (c * d - a * f))],
     [d * h - e * g, b * g - a * h, a * e - b * d,
        - (p * (d * h - e * g) + q * (b * g - a * h) + r * (a * e - b * d))],
     [0, 0, 0, a * (e * i - f * h) - b * (d * i - f * g) + c * (d * h - e * g)]]"
  by (simp add: mat_adj_def mat_minor_def drop_nth_def upt_0_4 mat_det_3x3 del: mat_det.simps)
    (simp add: algebra_simps)

lemma mat_mul4_scale_right:
  fixes D :: real
  assumes "U = [[u00, u01, u02, u03], [u10, u11, u12, u13], [u20, u21, u22, u23], [u30, u31, u32, u33]]"
  shows "mat_mul4 A (map (map (\<lambda>x. x / D)) U) = map (map (\<lambda>x. x / D)) (mat_mul4 A U)"
  unfolding assms mat_mul4_def upt_0_4
  by (simp add: add_divide_distrib)

lemma mat_mul4_scale_left:
  fixes D :: real
  assumes "U = [[u00, u01, u02, u03], [u10, u11, u12, u13], [u20, u21, u22, u23], [u30, u31, u32, u33]]"
  shows "mat_mul4 (map (map (\<lambda>x. x / D)) U) A = map (map (\<lambda>x. x / D)) (mat_mul4 U A)"
  unfolding assms mat_mul4_def upt_0_4
  by (simp add: add_divide_distrib)

lemma mat_adj_affine_right:
  fixes a b c d e f g h i p q r :: real
  defines "A \<equiv> [[a, b, c, p], [d, e, f, q], [g, h, i, r], [0, 0, 0, 1]]"
  defines "D \<equiv> a * (e * i - f * h) - b * (d * i - f * g) + c * (d * h - e * g)"
  shows "mat_mul4 A (mat_adj A) = [[D, 0, 0, 0], [0, D, 0, 0], [0, 0, D, 0], [0, 0, 0, D]]"
  unfolding A_def mat_adj_affine unfolding mat_mul4_def upt_0_4 D_def
  by (simp add: algebra_simps)

lemma mat_adj_affine_left:
  fixes a b c d e f g h i p q r :: real
  defines "A \<equiv> [[a, b, c, p], [d, e, f, q], [g, h, i, r], [0, 0, 0, 1]]"
  defines "D \<equiv> a * (e * i - f * h) - b * (d * i - f * g) + c * (d * h - e * g)"
  shows "mat_mul4 (mat_adj A) A = [[D, 0, 0, 0], [0, D, 0, 0], [0, 0, D, 0], [0, 0, 0, D]]"
  unfolding A_def mat_adj_affine unfolding mat_mul4_def upt_0_4 D_def
  by (simp add: algebra_simps)

lemma mat_inverse_affine:
  fixes a b c d e f g h i p q r :: real
  defines "A \<equiv> [[a, b, c, p], [d, e, f, q], [g, h, i, r], [0, 0, 0, 1]]"
  assumes "mat_det A \<noteq> 0"
  shows "mat_mul4 (mat_inverse A) A = identity4" and "mat_mul4 A (mat_inverse A) = identity4"
proof -
  define D where "D = mat_det A"
  have D: "a * (e * i - f * h) - b * (d * i - f * g) + c * (d * h - e * g) = D"
    unfolding D_def A_def by (rule mat_det_affine [symmetric])
  have D0: "D \<noteq> 0"
    unfolding D_def by (rule assms(2))
  have inv: "mat_inverse A = map (map (\<lambda>x. x / D)) (mat_adj A)"
    by (simp add: mat_inverse_def D_def)
  have adj: "\<exists>u00 u01 u02 u03 u10 u11 u12 u13 u20 u21 u22 u23 u30 u31 u32 u33. mat_adj A =
      [[u00, u01, u02, u03], [u10, u11, u12, u13], [u20, u21, u22, u23], [u30, u31, u32, u33]]"
    unfolding A_def mat_adj_affine by blast
  then obtain u00 u01 u02 u03 u10 u11 u12 u13 u20 u21 u22 u23 u30 u31 u32 u33 where U: "mat_adj A =
      [[u00, u01, u02, u03], [u10, u11, u12, u13], [u20, u21, u22, u23], [u30, u31, u32, u33]]"
    by blast
  show "mat_mul4 (mat_inverse A) A = identity4"
    unfolding inv mat_mul4_scale_left [OF U]
    unfolding A_def mat_adj_affine_left D
    using D0 by (simp add: identity4_def)
  show "mat_mul4 A (mat_inverse A) = identity4"
    unfolding inv mat_mul4_scale_right [OF U]
    unfolding A_def mat_adj_affine_right D
    using D0 by (simp add: identity4_def)
qed

lemma rotation_det:
  fixes cx sx cy sy cz sz :: real
  shows "(cy * cz) * ((sx * sy * sz + cx * cz) * (cx * cy) - (cx * sy * sz - sx * cz) * (sx * cy))
       - (sx * sy * cz - cx * sz) * ((cy * sz) * (cx * cy) - (cx * sy * sz - sx * cz) * (- sy))
       + (cx * sy * cz + sx * sz) * ((cy * sz) * (sx * cy) - (sx * sy * sz + cx * cz) * (- sy))
     = (cx * cx + sx * sx) * (cy * cy + sy * sy) * (cz * cz + sz * sz)"
  by (simp add: algebra_simps)

lemma mat_det_convert_CB_angles_to_T:
  "mat_det (convert_CB_angles_to_T alpha beta gamma tx ty tz) = 1"
proof -
  have sc: "cos x * cos x + sin x * sin x = 1" for x :: real
    using sin_cos_squared_add2 [of x] by (simp add: power2_eq_square)
  show ?thesis
    unfolding convert_CB_angles_to_T_def Let_def mat_det_affine rotation_det sc by simp
qed


section \<open>The loops of load_calibration_parameters\<close>

lemma length_6: "length xs = 6 \<Longrightarrow> \<exists>a b c d e f. xs = [a, b, c, d, e, f]"
  by (auto simp: length_Suc_conv eval_nat_numeral)

lemma length_8: "length xs = 8 \<Longrightarrow> \<exists>a b c d e f g h. xs = [a, b, c, d, e, f, g, h]"
  by (auto simp: length_Suc_conv eval_nat_numeral)

lemma upt_11_17: "[11..<Suc 16] = [11, 12, 13, 14, 15, 16]"
  by (simp add: upt_rec)

lemma upt_2_10: "[2..<Suc 9] = [2, 3, 4, 5, 6, 7, 8, 9]"
  by (simp add: upt_rec)

lemma read_coeffs_pose:
  assumes "length row = 6"
  shows "read_coeffs strtod tokens 11 16 row =
     [strtod (tokens ! 11), strtod (tokens ! 12), strtod (tokens ! 13),
      strtod (tokens ! 14), strtod (tokens ! 15), strtod (tokens ! 16)]"
proof -
  obtain a b c d e f where "row = [a, b, c, d, e, f]"
    using length_6 [OF assms] by blast
  then show ?thesis
    by (simp add: read_coeffs_def upt_11_17)
qed

lemma read_coeffs_intrinsics:
  assumes "length row = 8"
  shows "read_coeffs strtod tokens 2 9 row =
     [strtod (tokens ! 2), strtod (tokens ! 3), strtod (tokens ! 4), strtod (tokens ! 5),
      strtod (tokens ! 6), strtod (tokens ! 7), strtod (tokens ! 8), strtod (tokens ! 9)]"
proof -
  obtain a b c d e f g h where "row = [a, b, c, d, e, f, g, h]"
    using length_8 [OF assms] by blast
  then show ?thesis
    by (simp add: read_coeffs_def upt_2_10)
qed

lemma read_xml_lines_result:
  assumes "read_xml_lines strtod lines tri co vT c = Inr (t, co', vT', c')"
    and "length co = 2" and "\<forall>row \<in> set co. length row = 6" and "length vT = 2"
  shows "c' = c + length (camera_records lines) \<and> c' \<le> max c 2 \<and> length vT' = 2 \<and>
     (\<forall>k < length (camera_records lines). vT' ! (c + k) = record_pose strtod (camera_records lines ! k)) \<and>
     (\<forall>j < c. vT' ! j = vT ! j) \<and>
     trans_extrinsics t = trans_extrinsics tri \<and> cal_extrinsics t = cal_extrinsics tri \<and>
     projectives t = projectives tri"
  using assms
proof (induction lines arbitrary: tri co vT c)
  case Nil
  then show ?case by (simp add: camera_records_def)
next
  case (Cons tokens rest)
  show ?case
  proof (cases "length tokens \<noteq> 0 \<and> tokens ! 0 = ''CAMERA''")
    case False
    then have skip: "read_xml_lines strtod (tokens # rest) tri co vT c = read_xml_lines strtod rest tri co vT c"
      by auto
    have recs: "camera_records (tokens # rest) = camera_records rest"
      using False by (auto simp: camera_records_def)
    from Cons.IH [OF Cons.prems(1) [unfolded skip] Cons.prems(2,3,4)] show ?thesis
      unfolding recs .
  next
    case True
    have recs: "camera_records (tokens # rest) = tokens # camera_records rest"
      using True by (auto simp: camera_records_def)
    have c2: "c < 2" and len: "length tokens > 17"
      using Cons.prems(1) True by (auto split: if_splits)
    have rowlen: "length (co ! c) = 6"
      using Cons.prems(2,3) c2 by simp
    define co1 where "co1 = co[c := read_coeffs strtod tokens 11 16 (co ! c)]"
    define tri1 where "tri1 = tri\<lparr>cal_intrinsics := (cal_intrinsics tri)
                    [c := read_coeffs strtod tokens 2 9 (cal_intrinsics tri ! c)]\<rparr>"
    have co1c: "co1 ! c = [strtod (tokens ! 11), strtod (tokens ! 12), strtod (tokens ! 13),
      strtod (tokens ! 14), strtod (tokens ! 15), strtod (tokens ! 16)]"
      using c2 Cons.prems(2) by (simp add: co1_def read_coeffs_pose [OF rowlen])
    have pose: "convert_CB_angles_to_T (co1 ! c ! 0) (co1 ! c ! 1) (co1 ! c ! 2) (co1 ! c ! 3)
        (co1 ! c ! 4) (co1 ! c ! 5) = record_pose strtod tokens"
      unfolding co1c by (simp add: record_pose_def)
    have step: "read_xml_lines strtod (tokens # rest) tri co vT c =
        read_xml_lines strtod rest tri1 co1 (vT[c := record_pose strtod tokens]) (Suc c)"
      using True c2 len unfolding pose [symmetric]
      by (simp add: Let_def co1_def tri1_def)
    have co1: "length co1 = 2" "\<forall>row \<in> set co1. length row = 6"
    proof -
      show "length co1 = 2" using Cons.prems(2) by (simp add: co1_def)
      have "length (read_coeffs strtod tokens 11 16 (co ! c)) = 6"
        by (simp add: read_coeffs_pose [OF rowlen])
      then show "\<forall>row \<in> set co1. length row = 6"
        using Cons.prems(3) unfolding co1_def by (auto dest!: set_update_subset_insert [THEN subsetD])
    qed
    have vT1: "length (vT[c := record_pose strtod tokens]) = 2"
      using Cons.prems(4) by simp
    from Cons.IH [OF Cons.prems(1) [unfolded step] co1 vT1]
    have IH: "c' = Suc c + length (camera_records rest)" "c' \<le> max (Suc c) 2" "length vT' = 2"
      "\<forall>k < length (camera_records rest). vT' ! (Suc c + k) = record_pose strtod (camera_records rest ! k)"
      "\<forall>j < Suc c. vT' ! j = (vT[c := record_pose strtod tokens]) ! j"
      "trans_extrinsics t = trans_extrinsics tri1" "cal_extrinsics t = cal_extrinsics tri1"
      "projectives t = projectives tri1"
      by simp_all
    have at_c: "vT' ! c = record_pose strtod tokens"
      using IH(5) c2 Cons.prems(4) by simp
    have poses: "\<forall>k < length (camera_records (tokens # rest)).
        vT' ! (c + k) = record_pose strtod (camera_records (tokens # rest) ! k)"
    proof (intro allI impI)
      fix k assume "k < length (camera_records (tokens # rest))"
      then show "vT' ! (c + k) = record_pose strtod (camera_records (tokens # rest) ! k)"
        unfolding recs using at_c IH(4) by (cases k) auto
    qed
    have before: "\<forall>j < c. vT' ! j = vT ! j"
      using IH(5) by auto
    show ?thesis
      using IH(1,2,3,6,7,8) poses before c2 by (simp add: recs tri1_def)
  qed
qed

lemma read_txt_lines_result:
  assumes "read_txt_lines strtod lines tri ext tv n = Inr (t, ext', tv', n')"
  shows "n' = n + length (value_lines lines) \<and>
     trans_extrinsics t = trans_extrinsics tri \<and> cal_extrinsics t = cal_extrinsics tri \<and>
     projectives t = projectives tri"
  using assms
proof (induction lines arbitrary: tri ext tv n)
  case Nil
  then show ?case by (simp add: value_lines_def)
next
  case (Cons tokens rest)
  show ?case
  proof (cases "length tokens \<noteq> 0 \<and> tokens ! 0 \<noteq> ''#''")
    case False
    then have skip: "read_txt_lines strtod (tokens # rest) tri ext tv n = read_txt_lines strtod rest tri ext tv n"
      by auto
    have vals: "value_lines (tokens # rest) = value_lines rest"
      using False by (auto simp: value_lines_def)
    from Cons.IH [OF Cons.prems [unfolded skip]] show ?thesis
      unfolding vals .
  next
    case True
    have vals: "value_lines (tokens # rest) = tokens # value_lines rest"
      using True by (auto simp: value_lines_def)
    from Cons.prems True obtain tri1 ext1 tv1 where
      step: "read_txt_lines strtod rest tri1 ext1 tv1 (Suc n) = Inr (t, ext', tv', n')"
      and same: "trans_extrinsics tri1 = trans_extrinsics tri" "cal_extrinsics tri1 = cal_extrinsics tri"
        "projectives tri1 = projectives tri"
      by (auto simp: Let_def split: if_splits)
    from Cons.IH [OF step] same show ?thesis
      by (simp add: vals)
  qed
qed


text \<open>The table of intrinsics keeps its shape through both loops.\<close>

lemma replicate_2: "replicate 2 x = [x, x]"
  by (simp add: eval_nat_numeral)

lemma read_xml_lines_shape:
  assumes "read_xml_lines strtod lines tri co vT c = Inr (t, co', vT', c')"
    and "map length (cal_intrinsics tri) = [8, 8]"
  shows "map length (cal_intrinsics t) = [8, 8]"
  using assms
proof (induction lines arbitrary: tri co vT c)
  case Nil
  then show ?case by simp
next
  case (Cons tokens rest)
  show ?case
  proof (cases "length tokens \<noteq> 0 \<and> tokens ! 0 = ''CAMERA''")
    case False
    then have skip: "read_xml_lines strtod (tokens # rest) tri co vT c = read_xml_lines strtod rest tri co vT c"
      by auto
    from Cons.IH [OF Cons.prems(1) [unfolded skip] Cons.prems(2)] show ?thesis .
  next
    case True
    have c2: "c < 2" and len: "length tokens > 17"
      using Cons.prems(1) True by (auto split: if_splits)
    from Cons.prems(2) obtain r0 r1 where ci: "cal_intrinsics tri = [r0, r1]"
      and l: "length r0 = 8" "length r1 = 8"
      by (auto simp: map_eq_Cons_conv)
    have rowlen: "length (cal_intrinsics tri ! c) = 8"
      using c2 l by (cases c) (simp_all add: ci)
    define tri1 where "tri1 = tri\<lparr>cal_intrinsics := (cal_intrinsics tri)
        [c := read_coeffs strtod tokens 2 9 (cal_intrinsics tri ! c)]\<rparr>"
    have shape1: "map length (cal_intrinsics tri1) = [8, 8]"
      using c2 l unfolding tri1_def read_coeffs_intrinsics [OF rowlen]
      by (cases c) (simp_all add: ci)
    have step: "read_xml_lines strtod (tokens # rest) tri co vT c =
        read_xml_lines strtod rest tri1
          (co[c := read_coeffs strtod tokens 11 16 (co ! c)])
          (vT[c := convert_CB_angles_to_T
                       (co[c := read_coeffs strtod tokens 11 16 (co ! c)] ! c ! 0)
                       (co[c := read_coeffs strtod tokens 11 16 (co ! c)] ! c ! 1)
                       (co[c := read_coeffs strtod tokens 11 16 (co ! c)] ! c ! 2)
                       (co[c := read_coeffs strtod tokens 11 16 (co ! c)] ! c ! 3)
                       (co[c := read_coeffs strtod tokens 11 16 (co ! c)] ! c ! 4)
                       (co[c := read_coeffs strtod tokens 11 16 (co ! c)] ! c ! 5)]) (Suc c)"
      using True c2 len by (simp add: Let_def tri1_def)
    from Cons.IH [OF Cons.prems(1) [unfolded step] shape1] show ?thesis .
  qed
qed

lemma mat_set_shape: "map length (mat_set i j v A) = map length A"
  by (cases "i < length A") (simp_all add: mat_set_def map_update list_update_same_conv list_update_beyond)

lemma read_txt_lines_shape:
  assumes "read_txt_lines strtod lines tri ext tv n = Inr (t, ext', tv', n')"
  shows "map length (cal_intrinsics t) = map length (cal_intrinsics tri)"
  using assms
proof (induction lines arbitrary: tri ext tv n)
  case Nil
  then show ?case by simp
next
  case (Cons tokens rest)
  show ?case
  proof (cases "length tokens \<noteq> 0 \<and> tokens ! 0 \<noteq> ''#''")
    case False
    then have skip: "read_txt_lines strtod (tokens # rest) tri ext tv n = read_txt_lines strtod rest tri ext tv n"
      by auto
    from Cons.IH [OF Cons.prems [unfolded skip]] show ?thesis .
  next
    case True
    from Cons.prems True obtain tri1 ext1 tv1 where
      step: "read_txt_lines strtod rest tri1 ext1 tv1 (Suc n) = Inr (t, ext', tv', n')"
      and same: "map length (cal_intrinsics tri1) = map length (cal_intrinsics tri)"
      by (auto simp: Let_def mat_set_shape split: if_splits)
    from Cons.IH [OF step] same show ?thesis by simp
  qed
qed

lemma load_calibration_values_shape:
  assumes "load_calibration_values strtod tri param_file_name dataFile = Inr t"
  shows "map length (cal_intrinsics t) = [8, 8]"
proof -
  define tri0 where "tri0 = tri\<lparr>cal_extrinsics := replicate 4 (replicate 4 0),
      trans_extrinsics := map (\<lambda>i. (replicate 4 0)[i := 1]) [0..<4],
      cal_intrinsics := replicate 2 (replicate 8 0)\<rparr>"
  have init: "map length (cal_intrinsics tri0) = [8, 8]"
    by (simp add: tri0_def replicate_2)
  from assms obtain lines where dfile: "dataFile = Some lines"
    by (cases dataFile) (simp_all add: load_calibration_values_def)
  show ?thesis
  proof (cases "contains ''xml'' param_file_name")
    case True
    with assms obtain t1 co vT c where
      loop: "read_xml_lines strtod lines tri0 (replicate 2 (replicate 6 0)) (replicate 2 (zero_mat 4 4)) 0 =
          Inr (t1, co, vT, c)"
      and t: "cal_intrinsics t = cal_intrinsics t1"
      unfolding dfile
      by (auto simp: load_calibration_values_def Let_def tri0_def split: sum.splits)
    from read_xml_lines_shape [OF loop init] show ?thesis
      unfolding t .
  next
    case False
    define tri1 where "tri1 = tri0\<lparr>trans_extrinsics :=
        fold (\<lambda>i T. mat_set i i 1 T) [0..<4] (trans_extrinsics tri0)\<rparr>"
    have init1: "map length (cal_intrinsics tri1) = [8, 8]"
      using init by (simp add: tri1_def)
    from False assms obtain t1 ext tv n where
      loop: "read_txt_lines strtod lines tri1 (replicate 6 0) (replicate 6 0) 0 = Inr (t1, ext, tv, n)"
      and t: "cal_intrinsics t = cal_intrinsics t1"
      unfolding dfile
      by (auto simp: load_calibration_values_def Let_def tri0_def tri1_def split: sum.splits if_splits)
    from read_txt_lines_shape [OF loop] init1 show ?thesis
      unfolding t by simp
  qed
qed

text \<open>The four tests on a table of real numbers of that shape.\<close>

lemma check_intrinsics_eq:
  assumes "map length (cal_intrinsics tri) = [8, 8]"
  shows "check_intrinsics tri =
     (if cal_intrinsics tri ! 0 ! 0 \<le> 0 then Inl (Invalid_cx 0, tri)
      else if cal_intrinsics tri ! 0 ! 1 \<le> 0 then Inl (Invalid_cy 0, tri)
      else if cal_intrinsics tri ! 1 ! 0 \<le> 0 then Inl (Invalid_cx 1, tri)
      else if cal_intrinsics tri ! 1 ! 1 \<le> 0 then Inl (Invalid_cy 1, tri)
      else Inr tri)"
proof -
  from assms obtain r0 r1 where ci: "cal_intrinsics tri = [r0, r1]" and
    l: "length r0 = 8" "length r1 = 8"
    by (auto simp: map_eq_Cons_conv)
  show ?thesis
    using l by (simp add: check_intrinsics_def test_principal_points_def ci)
qed

lemma le_zero_iff: "le_zero d \<longleftrightarrow> \<not> (gt_zero d \<or> d = NaN)"
  by (cases d) auto

lemma mat_mul4_copy4 [simp]:
  "mat_mul4 A (copy4 B) = mat_mul4 A B" "mat_mul4 (copy4 B) A = mat_mul4 B A"
  by (simp_all add: mat_mul4_def copy4_def upt_0_4)

lemma add_mat_mul4_zero:
  "add_mat_mul4 (replicate 4 (replicate 4 0)) A B = mat_mul4 A B"
  by (simp add: add_mat_mul4_def mat_mul4_def upt_0_4 eval_nat_numeral add.assoc)

lemma invert_transform_convert_CB_angles_to_T:
  "invert_transform (convert_CB_angles_to_T alpha beta gamma tx ty tz) =
     Inr (mat_inverse (convert_CB_angles_to_T alpha beta gamma tx ty tz))"
  by (simp add: invert_transform_def GETRF_GETRI_def GETRF_GETRI_result_def
      mat_det_convert_CB_angles_to_T split: prod.splits)

lemma mat_inverse_convert_CB_angles_to_T:
  "mat_mul4 (mat_inverse (convert_CB_angles_to_T alpha beta gamma tx ty tz))
      (convert_CB_angles_to_T alpha beta gamma tx ty tz) = identity4"
  "mat_mul4 (convert_CB_angles_to_T alpha beta gamma tx ty tz)
      (mat_inverse (convert_CB_angles_to_T alpha beta gamma tx ty tz)) = identity4"
proof -
  have d: "mat_det (convert_CB_angles_to_T alpha beta gamma tx ty tz) \<noteq> 0"
    by (simp add: mat_det_convert_CB_angles_to_T)
  show "mat_mul4 (mat_inverse (convert_CB_angles_to_T alpha beta gamma tx ty tz))
      (convert_CB_angles_to_T alpha beta gamma tx ty tz) = identity4"
    using d unfolding convert_CB_angles_to_T_def Let_def by (rule mat_inverse_affine(1))
  show "mat_mul4 (convert_CB_angles_to_T alpha beta gamma tx ty tz)
      (mat_inverse (convert_CB_angles_to_T alpha beta gamma tx ty tz)) = identity4"
    using d unfolding convert_CB_angles_to_T_def Let_def by (rule mat_inverse_affine(2))
qed

section \<open>The example files\<close>

lemma convert_CB_angles_to_T_zero_angles:
  "convert_CB_angles_to_T 0 0 0 tx ty tz = [[1, 0, 0, tx], [0, 1, 0, ty], [0, 0, 1, tz], [0, 0, 0, 1]]"
  by (simp add: convert_CB_angles_to_T_def)

lemma identity_init:
  "map (\<lambda>i. (replicate 4 0)[i := 1]) [0..<4] = (identity4 :: mat)"
  "fold (\<lambda>i T. mat_set i i 1 T) [0..<4] identity4 = identity4"
  by (simp_all add: upt_0_4 identity4_def mat_set_def eval_nat_numeral)

lemma zero_rows:
  "replicate 8 0 = [0, 0, 0, 0, 0, 0, 0, (0 :: real)]"
  "replicate 6 0 = [0, 0, 0, 0, 0, (0 :: real)]"
  "replicate 2 x = [x, x]"
  by (simp_all add: eval_nat_numeral)

lemma read_degenerate_txt:
  "read_txt_lines example_strtod degenerate_txt
     \<lparr>cal_intrinsics = [[0, 0, 0, 0, 0, 0, 0, 0], [0, 0, 0, 0, 0, 0, 0, 0]],
       cal_extrinsics = C, trans_extrinsics = T, projectives = P\<rparr>
     [0, 0, 0, 0, 0, 0] [0, 0, 0, 0, 0, 0] 0 =
   Inr (\<lparr>cal_intrinsics = [[1, 1, 1, 1, 0, 0, 0, 0], [1, 1, 1, 1, 0, 0, 0, 0]],
       cal_extrinsics = C, trans_extrinsics = T, projectives = P\<rparr>,
       [0, 0, 0, 0, 0, 0], [0, 0, 0, 0, 0, 0], 22)"
  apply (simp add: degenerate_txt_def example_strtod_def Let_def)
  apply (simp add: mat_set_def)
  done

lemma load_values_degenerate_txt:
  "load_calibration_values example_strtod unloaded_triangulation ''cal.txt'' (Some degenerate_txt) =
     Inr degenerate_triangulation"
  unfolding load_calibration_values_def Let_def
  apply (simp add: unloaded_triangulation_def identity_init zero_rows)
  apply (simp add: read_degenerate_txt convert_CB_angles_to_T_zero_angles copy4_def upt_0_4
      degenerate_triangulation_def identity4_def)
  done

lemma load_degenerate_txt:
  "load_calibration_parameters example_strtod unloaded_triangulation ''cal.txt'' (Some degenerate_txt) =
     Inr degenerate_triangulation"
  unfolding load_calibration_parameters_def load_values_degenerate_txt
  by (simp add: check_intrinsics_def test_principal_points_def degenerate_triangulation_def)

lemma value_lines_degenerate_txt: "length (value_lines degenerate_txt) = 22"
  by (simp add: value_lines_def degenerate_txt_def)

lemma read_zero_txt:
  "read_txt_lines example_strtod zero_txt
     \<lparr>cal_intrinsics = [[0, 0, 0, 0, 0, 0, 0, 0], [0, 0, 0, 0, 0, 0, 0, 0]],
       cal_extrinsics = C, trans_extrinsics = T, projectives = P\<rparr>
     [0, 0, 0, 0, 0, 0] [0, 0, 0, 0, 0, 0] 0 =
   Inr (\<lparr>cal_intrinsics = [[0, 0, 0, 0, 0, 0, 0, 0], [0, 0, 0, 0, 0, 0, 0, 0]],
       cal_extrinsics = C, trans_extrinsics = T, projectives = P\<rparr>,
       [0, 0, 0, 0, 0, 0], [0, 0, 0, 0, 0, 0], 22)"
  apply (simp add: zero_txt_def example_strtod_def Let_def eval_nat_numeral)
  apply (simp add: mat_set_def)
  done

lemma load_values_zero_txt:
  "load_calibration_values example_strtod unloaded_triangulation ''cal.txt'' (Some zero_txt) =
     Inr \<lparr>cal_intrinsics = zero_mat 2 8, cal_extrinsics = identity4, trans_extrinsics = identity4,
          projectives = None\<rparr>"
  unfolding load_calibration_values_def Let_def
  apply (simp add: unloaded_triangulation_def identity_init zero_rows)
  apply (simp add: read_zero_txt convert_CB_angles_to_T_zero_angles copy4_def upt_0_4
      identity4_def zero_mat_def zero_rows)
  done

lemma load_values_zero_txt_loaded:
  "load_calibration_values example_strtod degenerate_triangulation ''cal.txt'' (Some zero_txt) =
     Inr \<lparr>cal_intrinsics = zero_mat 2 8, cal_extrinsics = identity4, trans_extrinsics = identity4,
          projectives = None\<rparr>"
  unfolding load_calibration_values_def Let_def
  apply (simp add: degenerate_triangulation_def identity_init zero_rows)
  apply (simp add: read_zero_txt convert_CB_angles_to_T_zero_angles copy4_def upt_0_4
      identity4_def zero_mat_def zero_rows)
  done

lemma camera_records_example_xml:
  "camera_records example_xml =
     [[''CAMERA'', ''id=0'', ''1'', ''1'', ''1'', ''1'', ''0'', ''1'', ''0'', ''0'',
       ''orientation'', ''0'', ''0'', ''0'', ''1'', ''0'', ''0'', ''/CAMERA''],
      [''CAMERA'', ''id=1'', ''1'', ''1'', ''1'', ''1'', ''0'', ''0'', ''0'', ''0'',
       ''orientation'', ''0'', ''0'', ''0'', ''2'', ''0'', ''0'', ''/CAMERA'']]"
  by (simp add: camera_records_def example_xml_def)

lemma mat_inverse_translation:
  "mat_inverse [[1, 0, 0, tx], [0, 1, 0, ty], [0, 0, 1, tz], [0, 0, 0, 1]] =
     [[1, 0, 0, - tx], [0, 1, 0, - ty], [0, 0, 1, - tz], [0, 0, 0, 1]]"
  unfolding mat_inverse_def mat_adj_affine mat_det_affine by simp

lemma invert_transform_translation:
  "invert_transform [[1, 0, 0, tx], [0, 1, 0, ty], [0, 0, 1, tz], [0, 0, 0, 1]] =
     Inr [[1, 0, 0, - tx], [0, 1, 0, - ty], [0, 0, 1, - tz], [0, 0, 0, 1]]"
  using invert_transform_convert_CB_angles_to_T [of 0 0 0 tx ty tz]
  unfolding convert_CB_angles_to_T_zero_angles mat_inverse_translation .

lemma read_xml_example:
  "read_xml_lines example_strtod example_xml
      \<lparr>cal_intrinsics = [[0, 0, 0, 0, 0, 0, 0, 0], [0, 0, 0, 0, 0, 0, 0, 0]], cal_extrinsics = C,
        trans_extrinsics = T, projectives = P\<rparr>
      [[0, 0, 0, 0, 0, 0], [0, 0, 0, 0, 0, 0]] [Z0, Z1] 0 =
    Inr (\<lparr>cal_intrinsics = [[1, 1, 1, 1, 0, 1, 0, 0], [1, 1, 1, 1, 0, 0, 0, 0]],
          cal_extrinsics = C, trans_extrinsics = T, projectives = P\<rparr>,
         [[0, 0, 0, 1, 0, 0], [0, 0, 0, 2, 0, 0]],
         [[[1, 0, 0, 1], [0, 1, 0, 0], [0, 0, 1, 0], [0, 0, 0, 1]],
          [[1, 0, 0, 2], [0, 1, 0, 0], [0, 0, 1, 0], [0, 0, 0, 1]]], 2)"
  apply (simp add: example_xml_def Let_def)
  apply (simp add: read_coeffs_def upt_11_17 upt_2_10)
  apply (simp add: example_strtod_def convert_CB_angles_to_T_zero_angles)
  done

lemma load_values_example_xml:
  "load_calibration_values example_strtod unloaded_triangulation ''cal.xml'' (Some example_xml) =
     Inr (example_triangulation\<lparr>trans_extrinsics := [[1, 0, 0, - 1], [0, 1, 0, 0], [0, 0, 1, 0], [0, 0, 0, 1]]\<rparr>)"
  unfolding load_calibration_values_def Let_def
  apply (simp add: unloaded_triangulation_def identity_init zero_rows)
  apply (simp add: read_xml_example [of "replicate 4 (replicate 4 0)"] invert_transform_translation)
  apply (simp add: copy4_def add_mat_mul4_def upt_0_4 example_triangulation_def eval_nat_numeral)
  done

lemma load_example_xml:
  "load_calibration_parameters example_strtod unloaded_triangulation ''cal.xml'' (Some example_xml) =
     Inr (example_triangulation\<lparr>trans_extrinsics := [[1, 0, 0, - 1], [0, 1, 0, 0], [0, 0, 1, 0], [0, 0, 0, 1]]\<rparr>)"
  unfolding load_calibration_parameters_def load_values_example_xml
  by (simp add: check_intrinsics_def test_principal_points_def example_triangulation_def)

section \<open>The estimator and the direct mapper\<close>

lemma count_coords_well_formed:
  assumes "list_all (\<lambda>tokens. length tokens = 0 \<or> length tokens = 4) lines"
  shows "count_coords lines n = Inr (n + length (filter (\<lambda>tokens. length tokens = 4) lines))"
  using assms by (induction lines arbitrary: n) auto

lemma estimate_null_dereference:
  assumes "projectives tri = None" and "count_coords lines 0 = Inr n" and "\<not> n < 4"
  shows "estimate_projective_transform strtod simplex w h tri (Some lines) flag =
           Inl (Null_Dereference, tri)"
  using assms
  by (simp add: estimate_projective_transform_def GETRF_GETRI_def Let_def split: prod.splits)

text \<open>
  C9. \<^verbatim>\<open>triangulate\<close> is a function of its arguments and the calibration alone: started
  from any two contents of the static buffers, two calls with the same sensor
  coordinates, the same flag and the same object end the same way, with the same
  camera-0 and world points; the object is returned unchanged, and the buffers keep the
  shapes the next call relies on.
\<close>

theorem triangulate_pure:
  assumes "wf_statics s1" and "wf_statics s2"
  shows "(\<exists>e. triangulate tri s1 x0 y0 x1 y1 flag = Inl e \<and>
              triangulate tri s2 x0 y0 x1 y1 flag = Inl e) \<or>
         (\<exists>p w s1' s2'. triangulate tri s1 x0 y0 x1 y1 flag = Inr (p, w, tri, s1') \<and>
              triangulate tri s2 x0 y0 x1 y1 flag = Inr (p, w, tri, s2') \<and>
              wf_statics s1' \<and> wf_statics s2')"
proof (cases "flag \<and> cal_intrinsics tri = []")
  case True
  then have "flag = True" and "cal_intrinsics tri = []" by simp_all
  then show ?thesis using triangulate_no_calibration by blast
next
  case False
  then have c: "flag \<longrightarrow> cal_intrinsics tri \<noteq> []" by simp
  from triangulate_eq [OF assms(1) c] triangulate_eq [OF assms(2) c] show ?thesis by blast
qed


theorem triangulate_pure_witness:
  "wf_statics example_statics \<and> wf_statics dirty_statics \<and>
   (\<exists>p w s1' s2'.
      triangulate example_triangulation example_statics (5 / 4) (3 / 2) (3 / 2) (3 / 2) True =
        Inr (p, w, example_triangulation, s1') \<and>
      triangulate example_triangulation dirty_statics (5 / 4) (3 / 2) (3 / 2) (3 / 2) True =
        Inr (p, w, example_triangulation, s2') \<and> wf_statics s1' \<and> wf_statics s2')"
proof -
  have ne: "True \<longrightarrow> cal_intrinsics example_triangulation \<noteq> []"
    by (simp add: example_triangulation_def)
  from triangulate_eq [OF wf_example_statics ne, of "5 / 4" "3 / 2" "3 / 2" "3 / 2"]
  have "\<not> (\<exists>e. triangulate example_triangulation example_statics (5 / 4) (3 / 2) (3 / 2) (3 / 2) True = Inl e)"
    by auto
  with triangulate_pure [OF wf_example_statics wf_dirty_statics,
      of example_triangulation "5 / 4" "3 / 2" "3 / 2" "3 / 2" True]
  show ?thesis using wf_example_statics wf_dirty_statics by blast
qed

text \<open>
  C1. The round-trip law: a point \<open>(X, Y, Z)\<close> in camera-0 coordinates that projects onto
  both sensors (its depth in either camera is not zero), projected by the camera model and
  triangulated from the two sensor coordinates without distortion correction, is
  recovered exactly, whenever the normal matrix \<open>M\<^sup>T M\<close> of the pair is invertible.
\<close>

theorem triangulate_round_trip:
  assumes "wf_calibration tri" and "wf_statics s"
    and "project_camera_0_to_sensor_0 tri X Y Z = Inr (x0, y0)"
    and "project_camera_0_to_sensor_1 tri X Y Z = Inr (x1, y1)"
    and "mat_det (normal_matrix (design_matrix tri x0 y0 x1 y1)) \<noteq> 0"
  shows "\<exists>w s'. triangulate tri s x0 y0 x1 y1 False = Inr ((X, Y, Z), w, tri, s')"
proof -
  define M where "M = design_matrix tri x0 y0 x1 y1"
  define N where "N = normal_matrix M"
  have det: "mat_det N \<noteq> 0" using assms(5) by (simp add: N_def M_def)
  obtain a b c d e f g h i where Ns: "N = [[a, b, c], [d, e, f], [g, h, i]]"
    using shape_3x3 [OF normal_matrix_shape, of M] unfolding N_def by blast
  have inv: "mat_mul3 (mat_inverse N) N = identity3"
    using mat_inverse_3x3_left [of a b c d e f g h i] det unfolding Ns by simp
  have "length N = 3" by (simp add: Ns)
  from mat_inverse_shape [OF this] have B: "map length (mat_inverse N) = [3, 3, 3]"
    by (simp add: square_mat_def eval_nat_numeral)
  have r: "design_rhs tri x1 y1 = mat_vec 4 3 M [X, Y, Z]"
    unfolding M_def by (rule projections_solve_design_system [OF assms(3,4)])
  have Ms: "map length M = [3, 3, 3, 3]"
    unfolding M_def by (rule design_matrix_shape)
  have "camera_0_vec tri x0 y0 x1 y1 = mat_vec 3 4 (pseudo_inverse (mat_inverse N) M) (design_rhs tri x1 y1)"
    unfolding N_def M_def by (rule camera_0_vec_inverse [OF assms(5)])
  also have "\<dots> = [X, Y, Z]"
    by (rule pseudo_inverse_recovers [OF Ms B _ r]) (simp add: N_def [symmetric] inv)
  finally have cam: "triangulated_camera_0 tri x0 y0 x1 y1 False = [X, Y, Z]"
    by (simp add: triangulated_camera_0_def)
  from triangulate_eq [OF assms(2), of False tri x0 y0 x1 y1] show ?thesis
    unfolding cam by (auto simp: point_of_def)
qed

theorem triangulate_round_trip_witness:
  "project_camera_0_to_sensor_0 example_triangulation 1 2 4 = Inr (5 / 4, 3 / 2) \<and>
   project_camera_0_to_sensor_1 example_triangulation 1 2 4 = Inr (3 / 2, 3 / 2) \<and>
   mat_det (normal_matrix (design_matrix example_triangulation (5 / 4) (3 / 2) (3 / 2) (3 / 2))) = 1 / 8 \<and>
   (\<exists>w s'. triangulate example_triangulation example_statics (5 / 4) (3 / 2) (3 / 2) (3 / 2) False =
       Inr ((1, 2, 4), w, example_triangulation, s'))"
proof -
  have p0: "project_camera_0_to_sensor_0 example_triangulation 1 2 4 = Inr (5 / 4, 3 / 2)"
    by (simp add: project_camera_0_to_sensor_0_def example_triangulation_def)
  have z: "z2 example_triangulation 1 2 4 = 1"
    by (simp add: z2_def psi2_def F2_T_def F2_def example_triangulation_def upt_0_3 upt_0_4)
  have p1: "project_camera_0_to_sensor_1 example_triangulation 1 2 4 = Inr (3 / 2, 3 / 2)"
    unfolding project_camera_0_to_sensor_1_def Let_def z
    by (simp add: psi2_def F2_T_def F2_def example_triangulation_def upt_0_3 upt_0_4)
  have N: "normal_matrix (design_matrix example_triangulation (5 / 4) (3 / 2) (3 / 2) (3 / 2)) =
      [[2, 0, - 3 / 4], [0, 2, - 1], [- 3 / 4, - 1, 13 / 16]]"
    by (simp add: normal_matrix_def design_matrix_def example_triangulation_def upt_0_3 upt_0_4)
  have d: "mat_det (normal_matrix (design_matrix example_triangulation (5 / 4) (3 / 2) (3 / 2) (3 / 2))) = 1 / 8"
    unfolding N mat_det_3x3 by simp
  then have d0: "mat_det (normal_matrix (design_matrix example_triangulation (5 / 4) (3 / 2) (3 / 2) (3 / 2))) \<noteq> 0"
    by simp
  from triangulate_round_trip [OF wf_example_triangulation wf_example_statics p0 p1 d0] p0 p1 d
  show ?thesis by simp
qed

text \<open>
  C2. Where \<open>M\<^sup>T M\<close> is singular the claim has \<^verbatim>\<open>triangulate\<close> fail. For the two coincident
  cameras of a 22-value txt file and the sensor coordinates of the two principal points the normal matrix is
  \<open>diag(2, 2, 0)\<close>, and the call returns the point \<open>(0, 0, 0)\<close> in both frames, with
  \<^verbatim>\<open>INFO = 3\<close> left in the static: the handler around \<^verbatim>\<open>GETRI\<close> is never entered, and
  \<^verbatim>\<open>INFO\<close> is not inspected.
\<close>

theorem triangulate_singular_no_failure:
  "load_calibration_parameters example_strtod unloaded_triangulation ''cal.txt'' (Some degenerate_txt) =
     Inr degenerate_triangulation \<and>
   mat_det (normal_matrix (design_matrix degenerate_triangulation 1 1 1 1)) = 0 \<and>
   (\<exists>s'. triangulate degenerate_triangulation example_statics 1 1 1 1 False =
       Inr ((0, 0, 0), (0, 0, 0), degenerate_triangulation, s') \<and> st_INFO s' = 3)"
proof -
  have M: "design_matrix degenerate_triangulation 1 1 1 1 = [[1, 0, 0], [0, 1, 0], [1, 0, 0], [0, 1, 0]]"
    by (simp add: design_matrix_def degenerate_triangulation_def identity4_def)
  have r: "design_rhs degenerate_triangulation 1 1 = [0, 0, 0, 0]"
    by (simp add: design_rhs_def degenerate_triangulation_def identity4_def)
  have N: "normal_matrix (design_matrix degenerate_triangulation 1 1 1 1) = [[2, 0, 0], [0, 2, 0], [0, 0, 0]]"
    unfolding M by (simp add: normal_matrix_def upt_0_3 upt_0_4)
  have d: "mat_det (normal_matrix (design_matrix degenerate_triangulation 1 1 1 1)) = 0"
    unfolding N mat_det_3x3 by simp
  have cam: "camera_0_vec degenerate_triangulation 1 1 1 1 = [0, 0, 0]"
    by (simp add: camera_0_vec_def Let_def r mat_vec_def upt_0_3 upt_0_4)
  have info: "snd (snd (GETRF_GETRI_result 3
      (normal_matrix (design_matrix degenerate_triangulation 1 1 1 1)) (replicate 4 0))) = 3"
    unfolding N replicate_4 GETRF_GETRI_result_diag_2_2_0 by simp
  have w: "world_vec degenerate_triangulation [0, 0, 0] = [0, 0, 0, 1]"
    by (simp add: world_vec_def mat_vec_def degenerate_triangulation_def identity4_def upt_0_4)
  from triangulate_uncorrected_eq [OF wf_example_statics, of degenerate_triangulation 1 1 1 1] d
  show ?thesis unfolding cam w info by (auto simp: point_of_def load_degenerate_txt)
qed


text \<open>
  C4. After a successful load of an xml file with exactly two camera records, with poses
  \<open>T0\<close> and \<open>T1\<close> built by \<^verbatim>\<open>convert_CB_angles_to_T\<close> from the six values of each record,
  the stored camera 0 to world transform is the inverse of \<open>T0\<close> (a left and a right
  inverse), and the stored camera 0 to camera 1 transform is the product of \<open>T1\<close> with it.
\<close>

theorem load_xml_extrinsics:
  assumes "contains ''xml'' param_file_name"
    and "camera_records lines = [camera_0, camera_1]"
    and "load_calibration_parameters strtod tri param_file_name (Some lines) = Inr tri'"
  shows "mat_mul4 (trans_extrinsics tri') (record_pose strtod camera_0) = identity4 \<and>
         mat_mul4 (record_pose strtod camera_0) (trans_extrinsics tri') = identity4 \<and>
         cal_extrinsics tri' = mat_mul4 (record_pose strtod camera_1) (trans_extrinsics tri')"
proof -
  define tri0 where "tri0 = tri\<lparr>cal_extrinsics := replicate 4 (replicate 4 0),
      trans_extrinsics := map (\<lambda>i. (replicate 4 0)[i := 1]) [0..<4],
      cal_intrinsics := replicate 2 (replicate 8 0)\<rparr>"
  from assms(3) obtain t where vals: "load_calibration_values strtod tri param_file_name (Some lines) = Inr t"
    and chk: "check_intrinsics t = Inr tri'"
    by (auto simp: load_calibration_parameters_def split: sum.splits)
  have same: "tri' = t"
    using chk by (auto simp: check_intrinsics_def split: option.splits)
  from vals assms(1) obtain t1 co vT c T0 where
    loop: "read_xml_lines strtod lines tri0 (replicate 2 (replicate 6 0)) (replicate 2 (zero_mat 4 4)) 0 =
        Inr (t1, co, vT, c)"
    and inv: "invert_transform (vT ! 0) = Inr T0"
    and t: "t = t1\<lparr>trans_extrinsics := copy4 (vT[0 := T0] ! 0),
        cal_extrinsics := add_mat_mul4 (cal_extrinsics t1) (vT[0 := T0] ! 1) (vT[0 := T0] ! 0)\<rparr>"
    by (auto simp: load_calibration_values_def Let_def tri0_def split: sum.splits)
  from read_xml_lines_result [OF loop] assms(2)
  have vT: "length vT = 2" "vT ! 0 = record_pose strtod camera_0" "vT ! 1 = record_pose strtod camera_1"
    and ce: "cal_extrinsics t1 = replicate 4 (replicate 4 0)"
    by (auto simp: tri0_def)
  have T0: "T0 = mat_inverse (record_pose strtod camera_0)"
    using inv unfolding vT(2) record_pose_def invert_transform_convert_CB_angles_to_T by simp
  have tr: "trans_extrinsics tri' = copy4 T0" and cal: "cal_extrinsics tri' = mat_mul4 (record_pose strtod camera_1) T0"
    unfolding same t using vT by (simp_all add: ce add_mat_mul4_zero)
  show ?thesis
    unfolding tr cal T0 by (simp add: record_pose_def mat_inverse_convert_CB_angles_to_T)
qed

theorem load_xml_extrinsics_witness:
  "contains ''xml'' ''cal.xml'' \<and>
   load_calibration_parameters example_strtod unloaded_triangulation ''cal.xml'' (Some example_xml) =
     Inr (example_triangulation\<lparr>trans_extrinsics := [[1, 0, 0, - 1], [0, 1, 0, 0], [0, 0, 1, 0], [0, 0, 0, 1]]\<rparr>) \<and>
   mat_mul4 [[1, 0, 0, - 1], [0, 1, 0, 0], [0, 0, 1, 0], [0, 0, 0, 1]]
      [[1, 0, 0, 1], [0, 1, 0, 0], [0, 0, 1, 0], [0, 0, 0, 1]] = identity4 \<and>
   cal_extrinsics example_triangulation =
     mat_mul4 [[1, 0, 0, 2], [0, 1, 0, 0], [0, 0, 1, 0], [0, 0, 0, 1]]
       [[1, 0, 0, - 1], [0, 1, 0, 0], [0, 0, 1, 0], [0, 0, 0, 1]]"
proof -
  have c: "contains ''xml'' ''cal.xml''" by simp
  from load_xml_extrinsics [OF c camera_records_example_xml load_example_xml]
  show ?thesis
    using c load_example_xml
    by (simp add: record_pose_def example_strtod_def convert_CB_angles_to_T_zero_angles)
qed


text \<open>
  C6. A successful load of a txt file with exactly 22 values leaves the camera 0 to world
  transform equal to the 4x4 identity.
\<close>

theorem load_txt_22_identity:
  assumes "\<not> contains ''xml'' param_file_name" and "contains ''txt'' param_file_name"
    and "length (value_lines lines) = 22"
    and "load_calibration_parameters strtod tri param_file_name (Some lines) = Inr tri'"
  shows "trans_extrinsics tri' = identity4"
proof -
  define tri0 where "tri0 = tri\<lparr>cal_extrinsics := replicate 4 (replicate 4 0),
      trans_extrinsics := map (\<lambda>i. (replicate 4 0)[i := 1]) [0..<4],
      cal_intrinsics := replicate 2 (replicate 8 0),
      trans_extrinsics := fold (\<lambda>i T. mat_set i i 1 T) [0..<4] (map (\<lambda>i. (replicate 4 0)[i := 1]) [0..<4])\<rparr>"
  have id: "trans_extrinsics tri0 = identity4"
    by (simp add: tri0_def upt_0_4 mat_set_def identity4_def eval_nat_numeral)
  from assms(4) obtain t where vals: "load_calibration_values strtod tri param_file_name (Some lines) = Inr t"
    and chk: "check_intrinsics t = Inr tri'"
    by (auto simp: load_calibration_parameters_def split: sum.splits)
  have same: "tri' = t"
    using chk by (auto simp: check_intrinsics_def split: option.splits)
  from vals assms(1,2) obtain t1 ext tv n where
    loop: "read_txt_lines strtod lines tri0 (replicate 6 0) (replicate 6 0) 0 = Inr (t1, ext, tv, n)"
    and t: "n = 22 \<longrightarrow> t = t1\<lparr>cal_extrinsics := copy4 (convert_CB_angles_to_T
                                  (ext ! 0) (ext ! 1) (ext ! 2)
                                  (ext ! 3) (ext ! 4) (ext ! 5))\<rparr>"
    by (auto simp: load_calibration_values_def Let_def tri0_def split: sum.splits if_splits)
  from read_txt_lines_result [OF loop] assms(3) have n: "n = 22" and tr: "trans_extrinsics t1 = trans_extrinsics tri0"
    by simp_all
  show ?thesis
    unfolding same using t n tr id by simp
qed

theorem load_txt_22_identity_witness:
  "\<not> contains ''xml'' ''cal.txt'' \<and> contains ''txt'' ''cal.txt'' \<and>
   length (value_lines degenerate_txt) = 22 \<and>
   load_calibration_parameters example_strtod unloaded_triangulation ''cal.txt'' (Some degenerate_txt) =
     Inr degenerate_triangulation \<and>
   trans_extrinsics degenerate_triangulation = identity4"
proof -
  have n: "\<not> contains ''xml'' ''cal.txt''" and c: "contains ''txt'' ''cal.txt''"
    by simp_all
  from load_txt_22_identity [OF n c value_lines_degenerate_txt load_degenerate_txt]
  show ?thesis
    using n c value_lines_degenerate_txt load_degenerate_txt by simp
qed

text \<open>
  C7. On real values the first half holds: whenever the file is read through (either
  format) and \<open>cx\<close> or \<open>cy\<close> of either camera is not positive, the load fails with one of
  the four "invalid cx/cy" errors; the object then holds what was read, the rejected
  values included. The second half, that a load which succeeds has \<open>cx > 0\<close> and \<open>cy > 0\<close>,
  rests on the four tests \<^verbatim>\<open>x <= 0.0\<close> alone, and these pass exactly the doubles that are
  positive or not a number: a table whose \<open>cx\<close> is not a number passes all four, and its
  \<open>cx\<close> is not positive. The comment in \<^verbatim>\<open>correct_lens_distortion_radial\<close>, "tested above to see
  that cx > 0 and cy > 0 when cal parameters loaded", takes the tests to exclude it.
\<close>

theorem load_principal_point_tests:
  "(\<forall>t. load_calibration_values strtod tri param_file_name dataFile = Inr t \<and>
         (cal_intrinsics t ! 0 ! 0 \<le> 0 \<or> cal_intrinsics t ! 0 ! 1 \<le> 0 \<or>
          cal_intrinsics t ! 1 ! 0 \<le> 0 \<or> cal_intrinsics t ! 1 ! 1 \<le> 0) \<longrightarrow>
         (\<exists>e. load_calibration_parameters strtod tri param_file_name dataFile = Inl (e, t) \<and>
              invalid_intrinsics e)) \<and>
   (test_principal_points intrinsics = None \<longleftrightarrow>
      (gt_zero (intrinsics ! 0 ! 0) \<or> intrinsics ! 0 ! 0 = NaN) \<and>
      (gt_zero (intrinsics ! 0 ! 1) \<or> intrinsics ! 0 ! 1 = NaN) \<and>
      (gt_zero (intrinsics ! 1 ! 0) \<or> intrinsics ! 1 ! 0 = NaN) \<and>
      (gt_zero (intrinsics ! 1 ! 1) \<or> intrinsics ! 1 ! 1 = NaN)) \<and>
   test_principal_points nan_intrinsics = None \<and> \<not> gt_zero (nan_intrinsics ! 0 ! 0)"
proof -
  have a: "\<exists>e. load_calibration_parameters strtod tri param_file_name dataFile = Inl (e, t) \<and>
              invalid_intrinsics e"
    if vals: "load_calibration_values strtod tri param_file_name dataFile = Inr t"
      and neg: "cal_intrinsics t ! 0 ! 0 \<le> 0 \<or> cal_intrinsics t ! 0 ! 1 \<le> 0 \<or>
          cal_intrinsics t ! 1 ! 0 \<le> 0 \<or> cal_intrinsics t ! 1 ! 1 \<le> 0" for t
    using neg
    by (auto simp: load_calibration_parameters_def vals invalid_intrinsics_def
        check_intrinsics_eq [OF load_calibration_values_shape [OF vals]])
  have b: "test_principal_points intrinsics = None \<longleftrightarrow>
      (gt_zero (intrinsics ! 0 ! 0) \<or> intrinsics ! 0 ! 0 = NaN) \<and>
      (gt_zero (intrinsics ! 0 ! 1) \<or> intrinsics ! 0 ! 1 = NaN) \<and>
      (gt_zero (intrinsics ! 1 ! 0) \<or> intrinsics ! 1 ! 0 = NaN) \<and>
      (gt_zero (intrinsics ! 1 ! 1) \<or> intrinsics ! 1 ! 1 = NaN)"
    by (simp add: test_principal_points_def le_zero_iff)
  have c: "test_principal_points nan_intrinsics = None \<and> \<not> gt_zero (nan_intrinsics ! 0 ! 0)"
    by (simp add: test_principal_points_def nan_intrinsics_def)
  from a b c show ?thesis by blast
qed

text \<open>
  An object that holds a calibration, loaded again from a file of 22 zeros: the load
  fails, and the object is left with the zeros in place of its principal points.
\<close>

theorem load_principal_point_tests_witness:
  "load_calibration_values example_strtod degenerate_triangulation ''cal.txt'' (Some zero_txt) =
     Inr \<lparr>cal_intrinsics = zero_mat 2 8, cal_extrinsics = identity4, trans_extrinsics = identity4,
          projectives = None\<rparr> \<and>
   (\<exists>e. load_calibration_parameters example_strtod degenerate_triangulation ''cal.txt'' (Some zero_txt) =
          Inl (e, \<lparr>cal_intrinsics = zero_mat 2 8, cal_extrinsics = identity4,
                   trans_extrinsics = identity4, projectives = None\<rparr>) \<and>
        invalid_intrinsics e) \<and>
   cal_intrinsics degenerate_triangulation ! 0 ! 0 = 1"
proof -
  have z: "cal_intrinsics \<lparr>cal_intrinsics = zero_mat 2 8, cal_extrinsics = identity4,
      trans_extrinsics = identity4, projectives = None\<rparr> ! 0 ! 0 \<le> 0"
    by (simp add: zero_mat_def eval_nat_numeral)
  from load_principal_point_tests [of example_strtod degenerate_triangulation "''cal.txt''" "Some zero_txt"]
    load_values_zero_txt_loaded z
  have a: "\<exists>e. load_calibration_parameters example_strtod degenerate_triangulation ''cal.txt'' (Some zero_txt) =
          Inl (e, \<lparr>cal_intrinsics = zero_mat 2 8, cal_extrinsics = identity4,
                   trans_extrinsics = identity4, projectives = None\<rparr>) \<and>
        invalid_intrinsics e"
    by blast
  show ?thesis using load_values_zero_txt_loaded a by (simp add: degenerate_triangulation_def)
qed

text \<open>
  C8. If every line of the correspondence file that has tokens has four of them, and fewer
  than four lines do, \<^verbatim>\<open>estimate_projective_transform\<close> fails with "not enough sets of
  coordinates", whatever the number parser and the optimiser are, and leaves the object,
  with its coefficient vector, as it found it.
\<close>

theorem estimate_needs_four_points:
  assumes "list_all (\<lambda>tokens. length tokens = 0 \<or> length tokens = 4) lines"
    and "length (filter (\<lambda>tokens. length tokens = 4) lines) < 4"
  shows "estimate_projective_transform strtod simplex w h tri (Some lines) output_projected_image =
           Inl (Not_Enough_Coordinates, tri)"
  using assms(2)
  by (simp add: estimate_projective_transform_def count_coords_well_formed [OF assms(1)])

theorem estimate_needs_four_points_witness:
  "list_all (\<lambda>tokens. length tokens = 0 \<or> length tokens = 4) two_points \<and>
   length (filter (\<lambda>tokens. length tokens = 4) two_points) = 2 \<and>
   estimate_projective_transform example_strtod (\<lambda>p d. (True, p, 0)) 10 10 identity_homography
       (Some two_points) True = Inl (Not_Enough_Coordinates, identity_homography)"
proof -
  have a: "list_all (\<lambda>tokens. length tokens = 0 \<or> length tokens = 4) two_points"
    by (simp add: two_points_def)
  have b: "length (filter (\<lambda>tokens. length tokens = 4) two_points) = 2"
    by (simp add: two_points_def)
  then have c: "length (filter (\<lambda>tokens. length tokens = 4) two_points) < 4" by simp
  from estimate_needs_four_points [OF a c] a b show ?thesis by simp
qed

text \<open>
  C3, as the code has it. \<^verbatim>\<open>project_left_to_right_sensor_coords\<close> fails on its first
  assertion exactly when \<^verbatim>\<open>projectives_\<close> is null, and on its second when the vector does
  not hold 8 coefficients; with 8 coefficients it returns
  \<open>((a xl + b yl + c) / (g xl + h yl + 1), (d xl + e yl + f) / (g xl + h yl + 1))\<close>, whatever
  the coefficients are: the object keeps no record of whether an estimate has run.
\<close>

theorem project_left_to_right_sensor_coords_guard:
  "(project_left_to_right_sensor_coords tri xl yl = Inl (Assertion_Failed ''projectives_!=Teuchos::null'')
      \<longleftrightarrow> projectives tri = None) \<and>
   (\<forall>p. projectives tri = Some p \<and> length p \<noteq> 8 \<longrightarrow>
      project_left_to_right_sensor_coords tri xl yl = Inl (Assertion_Failed ''projectives_->size()==8'')) \<and>
   (\<forall>p. projectives tri = Some p \<and> length p = 8 \<longrightarrow>
      project_left_to_right_sensor_coords tri xl yl =
        Inr ((p ! 0 * xl + p ! 1 * yl + p ! 2) / (p ! 6 * xl + p ! 7 * yl + 1),
             (p ! 3 * xl + p ! 4 * yl + p ! 5) / (p ! 6 * xl + p ! 7 * yl + 1)))"
  by (auto simp: project_left_to_right_sensor_coords_def split: option.splits)

theorem project_left_to_right_sensor_coords_guard_witness:
  "project_left_to_right_sensor_coords identity_homography 3 4 = Inr (3, 4) \<and>
   project_left_to_right_sensor_coords unloaded_triangulation 3 4 =
     Inl (Assertion_Failed ''projectives_!=Teuchos::null'') \<and>
   project_left_to_right_sensor_coords (unloaded_triangulation\<lparr>projectives := Some [1, 0, 0, 0]\<rparr>) 3 4 =
     Inl (Assertion_Failed ''projectives_->size()==8'')"
proof -
  have p: "projectives identity_homography = Some [1, 0, 0, 0, 1, 0, 0, 0]"
    by (simp add: identity_homography_def)
  have n: "projectives unloaded_triangulation = None"
    by (simp add: unloaded_triangulation_def)
  from project_left_to_right_sensor_coords_guard [of identity_homography 3 4] p
  have a: "project_left_to_right_sensor_coords identity_homography 3 4 = Inr (3, 4)"
    by simp
  from project_left_to_right_sensor_coords_guard [of unloaded_triangulation 3 4] n
  have b: "project_left_to_right_sensor_coords unloaded_triangulation 3 4 =
     Inl (Assertion_Failed ''projectives_!=Teuchos::null'')"
    by simp
  from project_left_to_right_sensor_coords_guard
    [of "unloaded_triangulation\<lparr>projectives := Some [1, 0, 0, 0]\<rparr>" 3 4]
  have c: "project_left_to_right_sensor_coords (unloaded_triangulation\<lparr>projectives := Some [1, 0, 0, 0]\<rparr>) 3 4 =
     Inl (Assertion_Failed ''projectives_->size()==8'')"
    by simp
  from a b c show ?thesis by simp
qed

text \<open>
  An object whose vector is allocated and zero-filled, on which no estimate has run,
  maps \<open>(3, 4)\<close> to \<open>(0, 0)\<close> without failing; on the object whose vector is null the
  estimator itself fails, on a file of four points, when it reaches the vector.
\<close>

theorem project_before_estimate_counterexample:
  "projectives zeroed_triangulation = Some [0, 0, 0, 0, 0, 0, 0, 0] \<and>
   project_left_to_right_sensor_coords zeroed_triangulation 3 4 = Inr (0, 0) \<and>
   estimate_projective_transform example_strtod (\<lambda>p d. (True, p, 0)) 10 10 unloaded_triangulation
      (Some four_points) False = Inl (Null_Dereference, unloaded_triangulation)"
proof -
  have n: "projectives unloaded_triangulation = None"
    by (simp add: unloaded_triangulation_def)
  have c: "count_coords four_points 0 = Inr 4"
    by (simp add: four_points_def)
  from estimate_null_dereference [OF n c] show ?thesis
    by (simp add: zeroed_triangulation_def unloaded_triangulation_def
        project_left_to_right_sensor_coords_def)
qed

end
